theory Spec2Isabelle
  imports Complex_Main "HOL-Library.Option_ord"
begin

section \<open>Conventions of the embedding\<close>

text \<open>
  The program is a Python web application. Its values are embedded as follows.
  \<^item> A Python \<open>float\<close> is a \<^typ>\<open>real\<close> wherever a property holds in exact and in
    binary64 arithmetic alike: there the arithmetic of the model is exact. The price
    arithmetic is embedded a second time over binary64 values, with their rounding,
    infinities and NaN, for the property that depends on them (the round trip of a target
    percentage). A float division by zero raises \<open>ZeroDivisionError\<close>, and both
    embeddings say so.
  \<^item> \<open>Optional[float]\<close> is \<^typ>\<open>real option\<close>. The source tests such values by
    truthiness (\<open>if x:\<close>), which is false for \<open>None\<close> and for \<open>0.0\<close>.
  \<^item> A Python \<open>str\<close> is a \<^typ>\<open>string\<close> holding its UTF-8 bytes.
  \<^item> An exception is a value of type \<open>exn\<close>; a function that can raise returns
    \<open>exn + 'a\<close>, with \<open>Inl\<close> for the exception.
\<close>

text \<open>
  \<open>ValueError\<close> and \<open>ZeroDivisionError\<close> are raised by the program and by its
  arithmetic, \<open>HTTPException\<close> by the web framework on the program's behalf.
  \<open>CollaboratorError m\<close> stands for any exception of the HTTP client or of the database,
  with \<open>m\<close> its \<open>str\<close>.
\<close>

datatype exn =
    ValueError string
  | ZeroDivisionError
  | HTTPException nat string
  | CollaboratorError string

text \<open>\<open>str(e)\<close> for an exception \<open>e\<close>.\<close>

fun str_exn :: "exn \<Rightarrow> string" where
  "str_exn (ValueError m) = m"
| "str_exn ZeroDivisionError = ''float division by zero''"
| "str_exn (HTTPException c m) = m"
| "str_exn (CollaboratorError m) = m"

text \<open>Truthiness of an \<open>Optional[float]\<close>.\<close>

fun truthy :: "real option \<Rightarrow> bool" where
  "truthy None = False"
| "truthy (Some x) = (x \<noteq> 0)"

text \<open>Truthiness of an \<open>Optional[str]\<close>: \<open>None\<close> and the empty string are false.\<close>

fun truthy_str :: "string option \<Rightarrow> bool" where
  "truthy_str None = False"
| "truthy_str (Some s) = (s \<noteq> [])"

text \<open>Float division \<open>a / b\<close>.\<close>

definition py_div :: "real \<Rightarrow> real \<Rightarrow> exn + real" where
  "py_div a b = (if b = 0 then Inl ZeroDivisionError else Inr (a / b))"

section \<open>discount\_strategies.py\<close>

datatype DiscountStrategy =
    INCREASE_COMPARE_ONLY
  | DECREASE_PRICE_ONLY
  | BOTH_DIRECTIONS
  | SET_DISCOUNT_PERCENTAGE

text \<open>The \<open>value\<close> of each member of the enumeration.\<close>

fun strategy_value :: "DiscountStrategy \<Rightarrow> string" where
  "strategy_value INCREASE_COMPARE_ONLY = ''increase_compare_only''"
| "strategy_value DECREASE_PRICE_ONLY = ''decrease_price_only''"
| "strategy_value BOTH_DIRECTIONS = ''both_directions''"
| "strategy_value SET_DISCOUNT_PERCENTAGE = ''set_discount_percentage''"

text \<open>
  The message of the \<open>ValueError\<close> for a missing target percentage (the source's
  literal, in Ukrainian, as UTF-8 bytes).
\<close>

definition msg_target_required :: string where
  "msg_target_required =
     ''target_discount_percentage '' @
     [CHR 0xD0, CHR 0xBE, CHR 0xD0, CHR 0xB1, CHR 0xD0, CHR 0xBE, CHR 0xD0, CHR 0xB2, CHR 0x27,
      CHR 0xD1, CHR 0x8F, CHR 0xD0, CHR 0xB7, CHR 0xD0, CHR 0xBA, CHR 0xD0, CHR 0xBE, CHR 0xD0,
      CHR 0xB2, CHR 0xD0, CHR 0xB8, CHR 0xD0, CHR 0xB9] @ '' '' @
     [CHR 0xD0, CHR 0xB4, CHR 0xD0, CHR 0xBB, CHR 0xD1, CHR 0x8F] @ '' '' @
     [CHR 0xD1, CHR 0x86, CHR 0xD1, CHR 0x96, CHR 0xD1, CHR 0x94, CHR 0xD1, CHR 0x97] @ '' '' @
     [CHR 0xD1, CHR 0x81, CHR 0xD1, CHR 0x82, CHR 0xD1, CHR 0x80, CHR 0xD0, CHR 0xB0, CHR 0xD1,
      CHR 0x82, CHR 0xD0, CHR 0xB5, CHR 0xD0, CHR 0xB3, CHR 0xD1, CHR 0x96, CHR 0xD1, CHR 0x97]"

text \<open>
  \<open>DiscountCalculator.calculate_new_prices\<close>. The strategy is a member of the
  enumeration, so the final \<open>else\<close> of the source (unknown strategy) has no case here.
  Each branch tests the current compare price by truthiness.
\<close>

fun calculate_new_prices ::
  "real \<Rightarrow> real option \<Rightarrow> DiscountStrategy \<Rightarrow> real \<Rightarrow> real option
     \<Rightarrow> exn + (real \<times> real option)" where
  "calculate_new_prices current_price current_compare_at_price INCREASE_COMPARE_ONLY
       value target_discount_percentage =
     (let new_price = current_price;
          new_compare_at_price =
            (if truthy current_compare_at_price
             then the current_compare_at_price * (1 + value / 100)
             else current_price * (1 + value / 100))
      in Inr (new_price, Some new_compare_at_price))"
| "calculate_new_prices current_price current_compare_at_price DECREASE_PRICE_ONLY
       value target_discount_percentage =
     (let new_price = current_price * (1 - \<bar>value\<bar> / 100);
          new_compare_at_price =
            (if truthy current_compare_at_price
             then the current_compare_at_price
             else current_price)
      in Inr (new_price, Some new_compare_at_price))"
| "calculate_new_prices current_price current_compare_at_price BOTH_DIRECTIONS
       value target_discount_percentage =
     (let new_price = current_price * (1 + value / 100);
          new_compare_at_price =
            (if truthy current_compare_at_price
             then (let compare_multiplier = 1 + (value * 1.5) / 100
                   in the current_compare_at_price * compare_multiplier)
             else current_price * (1 + \<bar>value * 2\<bar> / 100))
      in Inr (new_price, Some new_compare_at_price))"
| "calculate_new_prices current_price current_compare_at_price SET_DISCOUNT_PERCENTAGE
       value target_discount_percentage =
     (case target_discount_percentage of
        None \<Rightarrow> Inl (ValueError msg_target_required)
      | Some t \<Rightarrow>
          (let new_price = current_price
           in case py_div current_price (1 - t / 100) of
                Inl e \<Rightarrow> Inl e
              | Inr new_compare_at_price \<Rightarrow> Inr (new_price, Some new_compare_at_price)))"

text \<open>\<open>DiscountCalculator.calculate_discount_percentage\<close>.\<close>

definition calculate_discount_percentage :: "real \<Rightarrow> real \<Rightarrow> exn + real" where
  "calculate_discount_percentage price compare_at_price =
     (if compare_at_price \<le> price then Inr 0
      else case py_div (compare_at_price - price) compare_at_price of
             Inl e \<Rightarrow> Inl e
           | Inr q \<Rightarrow> Inr (q * 100))"

subsection \<open>Rounding and formatting to two decimals\<close>

text \<open>
  Rounding to the nearest integer, ties to the even neighbour: the rule of Python's
  \<open>round\<close> and of the \<open>.2f\<close> format, applied here to the exact real value.
\<close>

definition round_half_even :: "real \<Rightarrow> int" where
  "round_half_even x =
     (let f = \<lfloor>x\<rfloor>; d = x - of_int f
      in if d < 1 / 2 then f
         else if 1 / 2 < d then f + 1
         else if even f then f else f + 1)"

text \<open>\<open>round(x, 2)\<close>.\<close>

definition py_round2 :: "real \<Rightarrow> real" where
  "py_round2 x = of_int (round_half_even (x * 100)) / 100"

text \<open>A value with at most two decimal places: an integer number of hundredths.\<close>

definition two_decimals :: "real \<Rightarrow> bool" where
  "two_decimals x = (x * 100 = of_int \<lfloor>x * 100\<rfloor>)"

definition digit_char :: "nat \<Rightarrow> char" where
  "digit_char d = ''0123456789'' ! d"

fun dec_digits :: "nat \<Rightarrow> string" where
  "dec_digits n =
     (if n < 10 then [digit_char n]
      else dec_digits (n div 10) @ [digit_char (n mod 10)])"

declare dec_digits.simps [simp del]

text \<open>The format \<open>f"{x:.2f}"\<close>.\<close>

definition format_2f :: "real \<Rightarrow> string" where
  "format_2f x =
     (let n = nat (round_half_even (\<bar>x\<bar> * 100))
      in (if x < 0 then ''-'' else []) @ dec_digits (n div 100) @ ''.'' @
         [digit_char (n mod 100 div 10), digit_char (n mod 10)])"

subsection \<open>The price arithmetic in binary64\<close>

text \<open>
  Python's \<open>float\<close> is IEEE 754 binary64. The two functions of the price arithmetic
  are embedded here a second time, over binary64 values, for the properties that rounding
  and overflow decide. A binary64 value is a finite number, given by its real value, an
  infinity or NaN. The sign of a zero is not recorded: no operation below tells the two
  zeros apart (a division by either raises).
\<close>

datatype b64 = Finite real | PosInf | NegInf | NaN

text \<open>
  The spacing of the binary64 numbers at the magnitude of \<open>x\<close>: \<open>2^(e-52)\<close> where
  \<open>2^e \<le> \<bar>x\<bar> < 2^(e+1)\<close>, and \<open>2^-1074\<close> for the subnormal numbers, below
  \<open>2^-1022\<close>.
\<close>

definition b64_grid :: "real \<Rightarrow> real" where
  "b64_grid x = 2 powr (of_int (max \<lfloor>log 2 \<bar>x\<bar>\<rfloor> (- 1022)) - 52)"

text \<open>
  Rounding of an exact result to binary64: to the nearest multiple of the spacing, ties to
  the even one. A rounded magnitude of \<open>2^1024\<close> or more overflows to an infinity.
\<close>

definition round_to_b64 :: "real \<Rightarrow> b64" where
  "round_to_b64 x =
     (if x = 0 then Finite 0
      else (let y = of_int (round_half_even (x / b64_grid x)) * b64_grid x
            in if 2 ^ 1024 \<le> \<bar>y\<bar> then (if 0 < x then PosInf else NegInf) else Finite y))"

text \<open>
  The operations \<open>-x\<close>, \<open>abs(x)\<close>, \<open>x + y\<close>, \<open>x - y\<close> and \<open>x * y\<close> on floats: the
  exact result, rounded, with the rules of IEEE 754 for infinities and NaN. None of them
  raises in Python.
\<close>

fun b64_neg :: "b64 \<Rightarrow> b64" where
  "b64_neg (Finite x) = Finite (- x)"
| "b64_neg PosInf = NegInf"
| "b64_neg NegInf = PosInf"
| "b64_neg NaN = NaN"

fun b64_abs :: "b64 \<Rightarrow> b64" where
  "b64_abs (Finite x) = Finite \<bar>x\<bar>"
| "b64_abs PosInf = PosInf"
| "b64_abs NegInf = PosInf"
| "b64_abs NaN = NaN"

fun b64_add :: "b64 \<Rightarrow> b64 \<Rightarrow> b64" where
  "b64_add (Finite x) (Finite y) = round_to_b64 (x + y)"
| "b64_add NaN b = NaN"
| "b64_add a NaN = NaN"
| "b64_add PosInf NegInf = NaN"
| "b64_add NegInf PosInf = NaN"
| "b64_add PosInf b = PosInf"
| "b64_add NegInf b = NegInf"
| "b64_add (Finite x) b = b"

definition b64_sub :: "b64 \<Rightarrow> b64 \<Rightarrow> b64" where
  "b64_sub a b = b64_add a (b64_neg b)"

fun b64_sign_inf :: "bool \<Rightarrow> b64" where
  "b64_sign_inf True = PosInf"
| "b64_sign_inf False = NegInf"

fun b64_mul :: "b64 \<Rightarrow> b64 \<Rightarrow> b64" where
  "b64_mul (Finite x) (Finite y) = round_to_b64 (x * y)"
| "b64_mul NaN b = NaN"
| "b64_mul a NaN = NaN"
| "b64_mul (Finite x) PosInf = (if x = 0 then NaN else b64_sign_inf (0 < x))"
| "b64_mul (Finite x) NegInf = (if x = 0 then NaN else b64_sign_inf (x < 0))"
| "b64_mul PosInf (Finite y) = (if y = 0 then NaN else b64_sign_inf (0 < y))"
| "b64_mul NegInf (Finite y) = (if y = 0 then NaN else b64_sign_inf (y < 0))"
| "b64_mul PosInf PosInf = PosInf"
| "b64_mul NegInf NegInf = PosInf"
| "b64_mul PosInf NegInf = NegInf"
| "b64_mul NegInf PosInf = NegInf"

text \<open>
  The IEEE 754 quotient, for a divisor that is not zero, and Python's \<open>a / b\<close>, which
  raises \<open>ZeroDivisionError\<close> for a zero divisor and is the IEEE quotient otherwise (an
  overflow gives an infinity, not an exception).
\<close>

fun b64_quot :: "b64 \<Rightarrow> b64 \<Rightarrow> b64" where
  "b64_quot (Finite x) (Finite y) = round_to_b64 (x / y)"
| "b64_quot NaN b = NaN"
| "b64_quot a NaN = NaN"
| "b64_quot (Finite x) b = Finite 0"
| "b64_quot PosInf (Finite y) = b64_sign_inf (0 \<le> y)"
| "b64_quot NegInf (Finite y) = b64_sign_inf (y < 0)"
| "b64_quot a b = NaN"

definition py_truediv :: "b64 \<Rightarrow> b64 \<Rightarrow> exn + b64" where
  "py_truediv a b = (if b = Finite 0 then Inl ZeroDivisionError else Inr (b64_quot a b))"

text \<open>\<open>a <= b\<close> on floats: false whenever NaN is involved.\<close>

fun b64_le :: "b64 \<Rightarrow> b64 \<Rightarrow> bool" where
  "b64_le (Finite x) (Finite y) = (x \<le> y)"
| "b64_le NaN b = False"
| "b64_le a NaN = False"
| "b64_le NegInf b = True"
| "b64_le a PosInf = True"
| "b64_le a b = False"

text \<open>Truthiness of an \<open>Optional[float]\<close>: false for \<open>None\<close> and for zero.\<close>

fun truthy_b64 :: "b64 option \<Rightarrow> bool" where
  "truthy_b64 None = False"
| "truthy_b64 (Some a) = (a \<noteq> Finite 0)"

text \<open>
  \<open>DiscountCalculator.calculate_new_prices\<close> in binary64. The integer literals \<open>1\<close>,
  \<open>2\<close> and \<open>100\<close> convert to floats exactly, and \<open>1.5\<close> is a binary64 number. In
  \<open>value / 100\<close> the divisor is the literal \<open>100\<close>, so that division cannot raise; the
  division of \<open>SET_DISCOUNT_PERCENTAGE\<close> can.
\<close>

fun calculate_new_prices_b64 ::
  "b64 \<Rightarrow> b64 option \<Rightarrow> DiscountStrategy \<Rightarrow> b64 \<Rightarrow> b64 option \<Rightarrow> exn + (b64 \<times> b64 option)" where
  "calculate_new_prices_b64 current_price current_compare_at_price INCREASE_COMPARE_ONLY
       value target_discount_percentage =
     (let new_price = current_price;
          new_compare_at_price =
            (if truthy_b64 current_compare_at_price
             then b64_mul (the current_compare_at_price)
                    (b64_add (Finite 1) (b64_quot value (Finite 100)))
             else b64_mul current_price (b64_add (Finite 1) (b64_quot value (Finite 100))))
      in Inr (new_price, Some new_compare_at_price))"
| "calculate_new_prices_b64 current_price current_compare_at_price DECREASE_PRICE_ONLY
       value target_discount_percentage =
     (let new_price =
            b64_mul current_price (b64_sub (Finite 1) (b64_quot (b64_abs value) (Finite 100)));
          new_compare_at_price =
            (if truthy_b64 current_compare_at_price
             then the current_compare_at_price
             else current_price)
      in Inr (new_price, Some new_compare_at_price))"
| "calculate_new_prices_b64 current_price current_compare_at_price BOTH_DIRECTIONS
       value target_discount_percentage =
     (let new_price = b64_mul current_price (b64_add (Finite 1) (b64_quot value (Finite 100)));
          new_compare_at_price =
            (if truthy_b64 current_compare_at_price
             then (let compare_multiplier =
                         b64_add (Finite 1)
                           (b64_quot (b64_mul value (Finite (3 / 2))) (Finite 100))
                   in b64_mul (the current_compare_at_price) compare_multiplier)
             else b64_mul current_price
                    (b64_add (Finite 1)
                       (b64_quot (b64_abs (b64_mul value (Finite 2))) (Finite 100))))
      in Inr (new_price, Some new_compare_at_price))"
| "calculate_new_prices_b64 current_price current_compare_at_price SET_DISCOUNT_PERCENTAGE
       value target_discount_percentage =
     (case target_discount_percentage of
        None \<Rightarrow> Inl (ValueError msg_target_required)
      | Some t \<Rightarrow>
          (let new_price = current_price
           in case py_truediv current_price
                     (b64_sub (Finite 1) (b64_quot t (Finite 100))) of
                Inl e \<Rightarrow> Inl e
              | Inr new_compare_at_price \<Rightarrow> Inr (new_price, Some new_compare_at_price)))"

text \<open>\<open>DiscountCalculator.calculate_discount_percentage\<close> in binary64.\<close>

definition calculate_discount_percentage_b64 :: "b64 \<Rightarrow> b64 \<Rightarrow> exn + b64" where
  "calculate_discount_percentage_b64 price compare_at_price =
     (if b64_le compare_at_price price then Inr (Finite 0)
      else case py_truediv (b64_sub compare_at_price price) compare_at_price of
             Inl e \<Rightarrow> Inl e
           | Inr q \<Rightarrow> Inr (b64_mul q (Finite 100)))"

subsection \<open>Strategy descriptions and the preview\<close>

text \<open>
  The four descriptions of \<open>get_strategy_description\<close>: the source's literals, in
  Ukrainian, as UTF-8 bytes.
\<close>

definition desc_increase_compare_only :: string where
  "desc_increase_compare_only =
     [CHR 0xD0, CHR 0x97, CHR 0xD0, CHR 0xB1, CHR 0xD1, CHR 0x96, CHR 0xD0, CHR 0xBB, CHR 0xD1,
      CHR 0x8C, CHR 0xD1, CHR 0x88, CHR 0xD0, CHR 0xB5, CHR 0xD0, CHR 0xBD, CHR 0xD0, CHR 0xBD,
      CHR 0xD1, CHR 0x8F] @
     '' '' @
     [CHR 0xD1, CHR 0x82, CHR 0xD1, CHR 0x96, CHR 0xD0, CHR 0xBB, CHR 0xD1, CHR 0x8C, CHR 0xD0,
      CHR 0xBA, CHR 0xD0, CHR 0xB8] @
     '' '' @
     [CHR 0xD0, CHR 0xBF, CHR 0xD0, CHR 0xBE, CHR 0xD1, CHR 0x80, CHR 0xD1, CHR 0x96, CHR 0xD0,
      CHR 0xB2, CHR 0xD0, CHR 0xBD, CHR 0xD1, CHR 0x8F, CHR 0xD0, CHR 0xBB, CHR 0xD1, CHR 0x8C,
      CHR 0xD0, CHR 0xBD, CHR 0xD0, CHR 0xBE, CHR 0xD1, CHR 0x97] @
     '' '' @ [CHR 0xD1, CHR 0x86, CHR 0xD1, CHR 0x96, CHR 0xD0, CHR 0xBD, CHR 0xD0, CHR 0xB8] @
     '' ('' @
     [CHR 0xD0, CHR 0xB7, CHR 0xD0, CHR 0xB1, CHR 0xD1, CHR 0x96, CHR 0xD0, CHR 0xBB, CHR 0xD1,
      CHR 0x8C, CHR 0xD1, CHR 0x88, CHR 0xD0, CHR 0xB8, CHR 0xD1, CHR 0x82, CHR 0xD0, CHR 0xB8] @
     '' '' @
     [CHR 0xD0, CHR 0xB7, CHR 0xD0, CHR 0xBD, CHR 0xD0, CHR 0xB8, CHR 0xD0, CHR 0xB6, CHR 0xD0,
      CHR 0xBA, CHR 0xD1, CHR 0x83] @
     '')''"

definition desc_decrease_price_only :: string where
  "desc_decrease_price_only =
     [CHR 0xD0, CHR 0x97, CHR 0xD0, CHR 0xBC, CHR 0xD0, CHR 0xB5, CHR 0xD0, CHR 0xBD, CHR 0xD1,
      CHR 0x88, CHR 0xD0, CHR 0xB5, CHR 0xD0, CHR 0xBD, CHR 0xD0, CHR 0xBD, CHR 0xD1, CHR 0x8F] @
     '' '' @
     [CHR 0xD1, CHR 0x82, CHR 0xD1, CHR 0x96, CHR 0xD0, CHR 0xBB, CHR 0xD1, CHR 0x8C, CHR 0xD0,
      CHR 0xBA, CHR 0xD0, CHR 0xB8] @
     '' '' @
     [CHR 0xD0, CHR 0xBE, CHR 0xD1, CHR 0x81, CHR 0xD0, CHR 0xBD, CHR 0xD0, CHR 0xBE, CHR 0xD0,
      CHR 0xB2, CHR 0xD0, CHR 0xBD, CHR 0xD0, CHR 0xBE, CHR 0xD1, CHR 0x97] @
     '' '' @ [CHR 0xD1, CHR 0x86, CHR 0xD1, CHR 0x96, CHR 0xD0, CHR 0xBD, CHR 0xD0, CHR 0xB8] @
     '' ('' @
     [CHR 0xD0, CHR 0xB7, CHR 0xD0, CHR 0xB1, CHR 0xD1, CHR 0x96, CHR 0xD0, CHR 0xBB, CHR 0xD1,
      CHR 0x8C, CHR 0xD1, CHR 0x88, CHR 0xD0, CHR 0xB8, CHR 0xD1, CHR 0x82, CHR 0xD0, CHR 0xB8] @
     '' '' @
     [CHR 0xD0, CHR 0xB7, CHR 0xD0, CHR 0xBD, CHR 0xD0, CHR 0xB8, CHR 0xD0, CHR 0xB6, CHR 0xD0,
      CHR 0xBA, CHR 0xD1, CHR 0x83] @
     '' + '' @
     [CHR 0xD0, CHR 0xB7, CHR 0xD0, CHR 0xBC, CHR 0xD0, CHR 0xB5, CHR 0xD0, CHR 0xBD, CHR 0xD1,
      CHR 0x88, CHR 0xD0, CHR 0xB8, CHR 0xD1, CHR 0x82, CHR 0xD0, CHR 0xB8] @
     '' '' @ [CHR 0xD1, CHR 0x86, CHR 0xD1, CHR 0x96, CHR 0xD0, CHR 0xBD, CHR 0xD1, CHR 0x83] @
     '')''"

definition desc_both_directions :: string where
  "desc_both_directions =
     [CHR 0xD0, CHR 0x97, CHR 0xD0, CHR 0xBC, CHR 0xD1, CHR 0x96, CHR 0xD0, CHR 0xBD, CHR 0xD0,
      CHR 0xB0] @
     '' '' @ [CHR 0xD0, CHR 0xBE, CHR 0xD0, CHR 0xB1, CHR 0xD0, CHR 0xBE, CHR 0xD1, CHR 0x85] @
     '' '' @ [CHR 0xD1, CHR 0x86, CHR 0xD1, CHR 0x96, CHR 0xD0, CHR 0xBD] @ '' ('' @
     [CHR 0xD0, CHR 0xBC, CHR 0xD0, CHR 0xB0, CHR 0xD0, CHR 0xBA, CHR 0xD1, CHR 0x81, CHR 0xD0,
      CHR 0xB8, CHR 0xD0, CHR 0xBC, CHR 0xD0, CHR 0xB0, CHR 0xD0, CHR 0xBB, CHR 0xD1, CHR 0x8C,
      CHR 0xD0, CHR 0xBD, CHR 0xD0, CHR 0xB8, CHR 0xD0, CHR 0xB9] @
     '' '' @
     [CHR 0xD0, CHR 0xBA, CHR 0xD0, CHR 0xBE, CHR 0xD0, CHR 0xBD, CHR 0xD1, CHR 0x82, CHR 0xD1,
      CHR 0x80, CHR 0xD0, CHR 0xBE, CHR 0xD0, CHR 0xBB, CHR 0xD1, CHR 0x8C] @
     '' '' @
     [CHR 0xD0, CHR 0xB7, CHR 0xD0, CHR 0xBD, CHR 0xD0, CHR 0xB8, CHR 0xD0, CHR 0xB6, CHR 0xD0,
      CHR 0xBA, CHR 0xD0, CHR 0xB8] @
     '')''"

definition desc_set_discount_percentage :: string where
  "desc_set_discount_percentage =
     [CHR 0xD0, CHR 0x92, CHR 0xD1, CHR 0x81, CHR 0xD1, CHR 0x82, CHR 0xD0, CHR 0xB0, CHR 0xD0,
      CHR 0xBD, CHR 0xD0, CHR 0xBE, CHR 0xD0, CHR 0xB2, CHR 0xD0, CHR 0xBB, CHR 0xD0, CHR 0xB5,
      CHR 0xD0, CHR 0xBD, CHR 0xD0, CHR 0xBD, CHR 0xD1, CHR 0x8F] @
     '' '' @
     [CHR 0xD0, CHR 0xBA, CHR 0xD0, CHR 0xBE, CHR 0xD0, CHR 0xBD, CHR 0xD0, CHR 0xBA, CHR 0xD1,
      CHR 0x80, CHR 0xD0, CHR 0xB5, CHR 0xD1, CHR 0x82, CHR 0xD0, CHR 0xBD, CHR 0xD0, CHR 0xBE,
      CHR 0xD0, CHR 0xB3, CHR 0xD0, CHR 0xBE] @
     '' '' @
     [CHR 0xD0, CHR 0xB2, CHR 0xD1, CHR 0x96, CHR 0xD0, CHR 0xB4, CHR 0xD1, CHR 0x81, CHR 0xD0,
      CHR 0xBE, CHR 0xD1, CHR 0x82, CHR 0xD0, CHR 0xBA, CHR 0xD0, CHR 0xB0] @
     '' '' @
     [CHR 0xD0, CHR 0xB7, CHR 0xD0, CHR 0xBD, CHR 0xD0, CHR 0xB8, CHR 0xD0, CHR 0xB6, CHR 0xD0,
      CHR 0xBA, CHR 0xD0, CHR 0xB8]"

text \<open>
  \<open>DiscountCalculator.get_strategy_description\<close>: a lookup in a table with one
  entry for each member of the enumeration, so the default of \<open>dict.get\<close> is never used.
\<close>

fun get_strategy_description :: "DiscountStrategy \<Rightarrow> string" where
  "get_strategy_description INCREASE_COMPARE_ONLY = desc_increase_compare_only"
| "get_strategy_description DECREASE_PRICE_ONLY = desc_decrease_price_only"
| "get_strategy_description BOTH_DIRECTIONS = desc_both_directions"
| "get_strategy_description SET_DISCOUNT_PERCENTAGE = desc_set_discount_percentage"

text \<open>The dictionary returned by \<open>preview_discount_change\<close>.\<close>

record preview =
  pv_current_price :: real
  pv_current_compare_at_price :: "real option"
  pv_current_discount_percentage :: real
  pv_new_price :: real
  pv_new_compare_at_price :: "real option"
  pv_new_discount_percentage :: real
  pv_discount_change :: real
  pv_strategy_description :: string

text \<open>
  The discount shown for a pair of prices, as the source computes it in three places:
  \<open>d = 0.0; if compare and compare > price: d = calculate_discount_percentage(price, compare)\<close>.
\<close>

definition guarded_discount :: "real \<Rightarrow> real option \<Rightarrow> exn + real" where
  "guarded_discount price compare_at_price =
     (if truthy compare_at_price \<and> the compare_at_price > price
      then calculate_discount_percentage price (the compare_at_price)
      else Inr 0)"

text \<open>\<open>DiscountCalculator.preview_discount_change\<close>.\<close>

definition preview_discount_change ::
  "real \<Rightarrow> real option \<Rightarrow> DiscountStrategy \<Rightarrow> real \<Rightarrow> real option \<Rightarrow> exn + preview" where
  "preview_discount_change current_price current_compare_at_price strategy value
       target_discount_percentage =
     (case guarded_discount current_price current_compare_at_price of
        Inl e \<Rightarrow> Inl e
      | Inr current_discount \<Rightarrow>
     (case calculate_new_prices current_price current_compare_at_price strategy value
             target_discount_percentage of
        Inl e \<Rightarrow> Inl e
      | Inr (new_price, new_compare_at_price) \<Rightarrow>
     (case guarded_discount new_price new_compare_at_price of
        Inl e \<Rightarrow> Inl e
      | Inr new_discount \<Rightarrow>
          Inr \<lparr> pv_current_price = current_price,
                pv_current_compare_at_price = current_compare_at_price,
                pv_current_discount_percentage = py_round2 current_discount,
                pv_new_price = py_round2 new_price,
                pv_new_compare_at_price =
                  (if truthy new_compare_at_price
                   then Some (py_round2 (the new_compare_at_price)) else None),
                pv_new_discount_percentage = py_round2 new_discount,
                pv_discount_change = py_round2 (new_discount - current_discount),
                pv_strategy_description = get_strategy_description strategy \<rparr>)))"

section \<open>shopify\_client.py and the collaborators\<close>

text \<open>
  A catalogue item's priced unit, as the batch code reads it: \<open>v_price\<close> is
  \<open>float(variant['price'])\<close>, and \<open>v_compare_at_price\<close> is
  \<open>float(variant['compare_at_price']) if variant.get('compare_at_price') else None\<close>.
  \<open>v_title\<close> is \<open>None\<close> when the dictionary has no title. Dictionaries that lack
  a required key, or whose prices do not parse, are outside the model.
\<close>

record variant =
  v_id :: nat
  v_title :: "string option"
  v_price :: real
  v_compare_at_price :: "real option"

text \<open>A product; \<open>p_variants\<close> is \<open>product.get('variants', [])\<close>.\<close>

record product =
  p_id :: nat
  p_title :: string
  p_variants :: "variant list"

text \<open>
  The body of the \<open>PUT variants/<id>.json\<close> request. \<open>pl_compare_at_price = None\<close>
  means that the payload has no \<open>compare_at_price\<close> key.
\<close>

record payload =
  pl_id :: nat
  pl_price :: string
  pl_compare_at_price :: "string option"

text \<open>The payload that \<open>ShopifyClient.update_variant_price\<close> builds from its arguments.\<close>

definition build_payload :: "nat \<Rightarrow> string \<Rightarrow> string option \<Rightarrow> payload" where
  "build_payload variant_id price compare_at_price =
     \<lparr> pl_id = variant_id, pl_price = price,
       pl_compare_at_price = (if truthy_str compare_at_price then compare_at_price else None) \<rparr>"

record rollback_data =
  rb_variant_id :: nat
  rb_restore_price :: real
  rb_restore_compare_at_price :: "real option"
  rb_old_discount_percentage :: real
  rb_new_discount_percentage :: real

text \<open>The dictionary handed to \<open>DatabaseManager.log_price_change\<close>.\<close>

record price_change =
  pc_product_id :: nat
  pc_variant_id :: nat
  pc_old_price :: real
  pc_new_price :: real
  pc_old_compare_at_price :: "real option"
  pc_new_compare_at_price :: "real option"
  pc_change_type :: string
  pc_session_id :: string
  pc_notes :: string
  pc_rollback_data :: rollback_data

text \<open>
  The collaborators of the batch code and the clock, as parameters. Each call that goes to
  the remote service or to the database either returns or raises.
  \<^item> \<open>shopify_get_products limit filters\<close>: \<open>ShopifyClient.get_products\<close>;
  \<^item> \<open>shopify_get_products_smart identifier limit\<close>:
    \<open>ShopifyClient.get_products_by_collection_smart\<close>;
  \<^item> \<open>shopify_put_variant payload\<close>: the request issued by
    \<open>ShopifyClient.update_variant_price\<close>;
  \<^item> \<open>db_log_price_change\<close>, \<open>db_create_rollback_session\<close>: \<open>DatabaseManager\<close>;
  \<^item> \<open>clock_time\<close> is \<open>int(time.time())\<close>, \<open>clock_isoformat\<close> is
    \<open>datetime.now().isoformat()\<close>, \<open>str_float\<close> is the default formatting of a float
    inside an f-string.
\<close>

record env =
  shopify_get_products :: "int \<Rightarrow> (string \<times> string option) list \<Rightarrow> exn + product list"
  shopify_get_products_smart :: "string option \<Rightarrow> int \<Rightarrow> exn + product list"
  shopify_put_variant :: "payload \<Rightarrow> exn + unit"
  db_log_price_change :: "price_change \<Rightarrow> exn + unit"
  db_create_rollback_session :: "string \<Rightarrow> string \<Rightarrow> exn + string"
  clock_time :: nat
  clock_isoformat :: string
  str_float :: "real \<Rightarrow> string"

section \<open>main.py\<close>

subsection \<open>The progress registry entry of a job\<close>

record error_entry =
  ee_product :: string
  ee_variant_id :: nat
  ee_error :: string

record final_stats =
  fs_total_processed :: nat
  fs_successful_updates :: nat
  fs_errors_count :: nat

text \<open>
  The dictionary \<open>task_progress[task_id]\<close>. The keys \<open>successful\<close>,
  \<open>completed_at\<close>, \<open>final_stats\<close> and \<open>error\<close> are absent from the initial
  dictionary and appear with the first update that sets them: \<open>None\<close> is an absent key.
\<close>

record job_progress =
  jp_status :: string
  jp_current :: nat
  jp_total :: nat
  jp_percentage :: int
  jp_current_item :: "string option"
  jp_errors :: "error_entry list"
  jp_session_id :: string
  jp_strategy :: string
  jp_successful :: "nat option"
  jp_completed_at :: "string option"
  jp_final_stats :: "final_stats option"
  jp_error :: "string option"

text \<open>
  A write of a job to the registry \<open>task_progress\<close>, without its key: the assignment
  \<open>task_progress[task_id] = d\<close>, or a change in place of the dictionary that is found
  under the key (\<open>.update(...)\<close>, or \<open>['errors'].append(...)\<close>).
\<close>

datatype entry_write = Assign job_progress | Update "job_progress \<Rightarrow> job_progress"

text \<open>
  The state of a running job: the local variables \<open>current\<close> and
  \<open>successful_updates\<close>, the registry entry as the job alone makes it, with the values
  it had before (oldest first), the writes of the job to the registry (oldest first), and the
  effects on the collaborators so far: the update requests issued and the history rows
  written, oldest first.
\<close>

record job_state =
  js_current :: nat
  js_successful_updates :: nat
  js_entry :: job_progress
  js_history :: "job_progress list"
  js_writes :: "entry_write list"
  js_sent :: "payload list"
  js_logged :: "price_change list"

text \<open>An in-place update of the registry entry; the value before it joins the history.\<close>

definition update_entry :: "(job_progress \<Rightarrow> job_progress) \<Rightarrow> job_state \<Rightarrow> job_state" where
  "update_entry f st =
     st\<lparr> js_history := js_history st @ [js_entry st], js_entry := f (js_entry st),
         js_writes := js_writes st @ [Update f] \<rparr>"

text \<open>
  Every value the registry entry has had when no other job writes under the same key,
  oldest first, the present one last.
\<close>

definition progress_trace :: "job_state \<Rightarrow> job_progress list" where
  "progress_trace st = js_history st @ [js_entry st]"

subsection \<open>The registry shared by all jobs\<close>

text \<open>
  \<open>task_progress\<close> is one dictionary for the whole process, from task identifiers to
  entries. A job is a coroutine: it is suspended at every \<open>await\<close>, and there is one
  between any two of its writes, so the writes of other jobs can fall between them. A write
  looks its key up at the moment it happens and acts on the dictionary it finds there. No
  job reads the registry to decide what to do next, so the writes of a job are the same
  whatever the others do, and a run of the process is a sequence of writes, each with its
  key, in the order in which they happen.
\<close>

type_synonym registry = "string \<Rightarrow> job_progress option"

text \<open>
  The effect of a write on the entry under its key. A change in place of an absent entry
  raises \<open>KeyError\<close> in the source; no job meets it, since its first write is an
  assignment and no entry is ever removed. Here it leaves the entry absent.
\<close>

fun apply_entry_write :: "entry_write \<Rightarrow> job_progress option \<Rightarrow> job_progress option" where
  "apply_entry_write (Assign d) old = Some d"
| "apply_entry_write (Update f) None = None"
| "apply_entry_write (Update f) (Some d) = Some (f d)"

definition registry_write :: "string \<times> entry_write \<Rightarrow> registry \<Rightarrow> registry" where
  "registry_write w reg = reg(fst w := apply_entry_write (snd w) (reg (fst w)))"

text \<open>The registry after each write of a run, oldest first.\<close>

fun registry_states :: "(string \<times> entry_write) list \<Rightarrow> registry \<Rightarrow> registry list" where
  "registry_states [] reg = []"
| "registry_states (w # ws) reg =
     registry_write w reg # registry_states ws (registry_write w reg)"

text \<open>
  What a poller of one key sees over a run: the entry under the key after each write, from
  the moment the key exists.
\<close>

definition key_trace :: "string \<Rightarrow> (string \<times> entry_write) list \<Rightarrow> registry \<Rightarrow> job_progress list" where
  "key_trace k ws reg = List.map_filter (\<lambda>r. r k) (registry_states ws reg)"

subsection \<open>get\_filtered\_products\<close>

text \<open>\<open>limit or 250\<close>.\<close>

definition limit_or_250 :: "int option \<Rightarrow> int" where
  "limit_or_250 limit = (case limit of None \<Rightarrow> 250 | Some n \<Rightarrow> if n = 0 then 250 else n)"

text \<open>
  The \<open>try\<close> block of \<open>get_filtered_products\<close>: the one fetch that the filter type
  selects, with the exception it raises, if any. An unknown filter type fetches nothing.
\<close>

definition get_filtered_products_try ::
  "env \<Rightarrow> string \<Rightarrow> string option \<Rightarrow> int option \<Rightarrow> exn + product list" where
  "get_filtered_products_try env filter_type filter_value limit =
     (if filter_type = ''all''
      then shopify_get_products env (limit_or_250 limit) []
      else if filter_type = ''collection''
      then shopify_get_products_smart env filter_value (limit_or_250 limit)
      else if filter_type = ''product_type''
      then shopify_get_products env (limit_or_250 limit) [(''product_type'', filter_value)]
      else if filter_type = ''vendor''
      then shopify_get_products env (limit_or_250 limit) [(''vendor'', filter_value)]
      else Inr [])"

text \<open>
  \<open>get_filtered_products\<close>. The whole body is inside \<open>try\<close>, and the handler
  returns the empty list for every exception.
\<close>

definition get_filtered_products ::
  "env \<Rightarrow> string \<Rightarrow> string option \<Rightarrow> int option \<Rightarrow> exn + product list" where
  "get_filtered_products env filter_type filter_value limit =
     (case get_filtered_products_try env filter_type filter_value limit of
        Inr products \<Rightarrow> Inr products
      | Inl e \<Rightarrow> Inr [])"

subsection \<open>update\_single\_variant\_discount\<close>

text \<open>The three fixed parts of the \<open>notes\<close> f-string of a history row.\<close>

definition notes_strategy_label :: string where
  "notes_strategy_label =
     [CHR 0xD0, CHR 0xA1, CHR 0xD1, CHR 0x82, CHR 0xD1, CHR 0x80, CHR 0xD0, CHR 0xB0, CHR 0xD1,
      CHR 0x82, CHR 0xD0, CHR 0xB5, CHR 0xD0, CHR 0xB3, CHR 0xD1, CHR 0x96, CHR 0xD1, CHR 0x8F] @
     '': ''"

definition notes_old_label :: string where
  "notes_old_label =
     '', '' @
     [CHR 0xD0, CHR 0xA1, CHR 0xD1, CHR 0x82, CHR 0xD0, CHR 0xB0, CHR 0xD1, CHR 0x80, CHR 0xD0,
      CHR 0xB0] @
     '' '' @
     [CHR 0xD0, CHR 0xB7, CHR 0xD0, CHR 0xBD, CHR 0xD0, CHR 0xB8, CHR 0xD0, CHR 0xB6, CHR 0xD0,
      CHR 0xBA, CHR 0xD0, CHR 0xB0] @
     '': ''"

definition notes_new_label :: string where
  "notes_new_label =
     ''%, '' @ [CHR 0xD0, CHR 0x9D, CHR 0xD0, CHR 0xBE, CHR 0xD0, CHR 0xB2, CHR 0xD0, CHR 0xB0] @
     '' '' @
     [CHR 0xD0, CHR 0xB7, CHR 0xD0, CHR 0xBD, CHR 0xD0, CHR 0xB8, CHR 0xD0, CHR 0xB6, CHR 0xD0,
      CHR 0xBA, CHR 0xD0, CHR 0xB0] @
     '': ''"

text \<open>
  The second and third argument of the call of \<open>update_variant_price\<close>:
  \<open>f"{new_price:.2f}"\<close> and
  \<open>f"{new_compare_at_price:.2f}" if new_compare_at_price else None\<close>.
\<close>

definition price_arguments :: "real \<Rightarrow> real option \<Rightarrow> string \<times> string option" where
  "price_arguments new_price new_compare_at_price =
     (format_2f new_price,
      if truthy new_compare_at_price then Some (format_2f (the new_compare_at_price)) else None)"

text \<open>
  The \<open>try\<close> block of \<open>update_single_variant_discount\<close>. The result is the
  exception that leaves the block, if any, with the effects of the block on the
  collaborators: the update requests issued and the history rows written. A request counts
  as issued whatever its outcome; a history row counts once it is written.
\<close>

definition update_single_variant_try ::
  "env \<Rightarrow> product \<Rightarrow> variant \<Rightarrow> DiscountStrategy \<Rightarrow> real \<Rightarrow> real option \<Rightarrow> string
     \<Rightarrow> (exn + unit) \<times> payload list \<times> price_change list" where
  "update_single_variant_try env product variant strategy value target_discount session_id =
     (let current_price = v_price variant;
          current_compare_at_price = v_compare_at_price variant
      in case calculate_new_prices current_price current_compare_at_price strategy value
                target_discount of
           Inl e \<Rightarrow> (Inl e, [], [])
         | Inr (new_price, new_compare_at_price) \<Rightarrow>
     (let args = price_arguments new_price new_compare_at_price;
          request = build_payload (v_id variant) (fst args) (snd args)
      in case shopify_put_variant env request of
           Inl e \<Rightarrow> (Inl e, [request], [])
         | Inr u \<Rightarrow>
     (case guarded_discount current_price current_compare_at_price of
           Inl e \<Rightarrow> (Inl e, [request], [])
         | Inr old_discount \<Rightarrow>
     (case guarded_discount new_price new_compare_at_price of
           Inl e \<Rightarrow> (Inl e, [request], [])
         | Inr new_discount \<Rightarrow>
     (let change =
            \<lparr> pc_product_id = p_id product,
              pc_variant_id = v_id variant,
              pc_old_price = current_price,
              pc_new_price = new_price,
              pc_old_compare_at_price = current_compare_at_price,
              pc_new_compare_at_price = new_compare_at_price,
              pc_change_type = ''DISCOUNT_UPDATE'',
              pc_session_id = session_id,
              pc_notes = notes_strategy_label @ strategy_value strategy @ notes_old_label @
                         format_2f old_discount @ notes_new_label @ format_2f new_discount @ ''%'',
              pc_rollback_data =
                \<lparr> rb_variant_id = v_id variant,
                  rb_restore_price = current_price,
                  rb_restore_compare_at_price = current_compare_at_price,
                  rb_old_discount_percentage = old_discount,
                  rb_new_discount_percentage = new_discount \<rparr> \<rparr>
      in case db_log_price_change env change of
           Inl e \<Rightarrow> (Inl e, [request], [])
         | Inr u \<Rightarrow> (Inr (), [request], [change]))))))"

text \<open>
  \<open>update_single_variant_discount\<close>: \<open>True\<close> when the block ends, \<open>False\<close>
  from the handler, which catches every exception and prints it.
\<close>

definition update_single_variant_discount ::
  "env \<Rightarrow> product \<Rightarrow> variant \<Rightarrow> DiscountStrategy \<Rightarrow> real \<Rightarrow> real option \<Rightarrow> string
     \<Rightarrow> (exn + bool) \<times> payload list \<times> price_change list" where
  "update_single_variant_discount env product variant strategy value target_discount session_id =
     (case update_single_variant_try env product variant strategy value target_discount
             session_id of
        (Inr u, effects) \<Rightarrow> (Inr True, effects)
      | (Inl e, effects) \<Rightarrow> (Inr False, effects))"

subsection \<open>process\_discount\_update\<close>

text \<open>The default of \<open>variant.get('title', ...)\<close>.\<close>

definition default_variant_title :: string where
  "default_variant_title =
     [CHR 0xD0, CHR 0x97, CHR 0xD0, CHR 0xB0] @ '' '' @
     [CHR 0xD0, CHR 0xB7, CHR 0xD0, CHR 0xB0, CHR 0xD0, CHR 0xBC, CHR 0xD0, CHR 0xBE, CHR 0xD0,
      CHR 0xB2, CHR 0xD1, CHR 0x87, CHR 0xD1, CHR 0x83, CHR 0xD0, CHR 0xB2, CHR 0xD0, CHR 0xB0,
      CHR 0xD0, CHR 0xBD, CHR 0xD0, CHR 0xBD, CHR 0xD1, CHR 0x8F, CHR 0xD0, CHR 0xBC]"

text \<open>\<open>int(x)\<close> for a float: truncation towards zero.\<close>

definition py_int :: "real \<Rightarrow> int" where
  "py_int x = (if 0 \<le> x then \<lfloor>x\<rfloor> else \<lceil>x\<rceil>)"

text \<open>The handler of the loop body: one more entry in \<open>errors\<close>.\<close>

definition record_unit_error :: "product \<Rightarrow> variant \<Rightarrow> exn \<Rightarrow> job_state \<Rightarrow> job_state" where
  "record_unit_error product variant e st =
     update_entry (\<lambda>p. p\<lparr> jp_errors := jp_errors p @
        [\<lparr> ee_product = p_title product, ee_variant_id = v_id variant, ee_error = str_exn e \<rparr>] \<rparr>) st"

text \<open>
  The body of the inner loop for one variant, with its \<open>try\<close> and handler. The
  effects of the call join those of the job. The local variables are assigned before the
  percentage is computed, as in the source.
\<close>

definition process_variant ::
  "env \<Rightarrow> DiscountStrategy \<Rightarrow> real \<Rightarrow> real option \<Rightarrow> string \<Rightarrow> nat \<Rightarrow> product \<Rightarrow> variant
     \<Rightarrow> job_state \<Rightarrow> job_state" where
  "process_variant env strategy value target_discount session_id total_variants product variant st =
     (case update_single_variant_discount env product variant strategy value target_discount
             session_id of
        (result, sent, logged) \<Rightarrow>
     (let st1 = st\<lparr> js_sent := js_sent st @ sent, js_logged := js_logged st @ logged \<rparr>
      in case result of
           Inl e \<Rightarrow> record_unit_error product variant e st1
         | Inr success \<Rightarrow>
     (let successful_updates =
            (if success then js_successful_updates st1 + 1 else js_successful_updates st1);
          current = js_current st1 + 1;
          st2 = st1\<lparr> js_current := current, js_successful_updates := successful_updates \<rparr>
      in case py_div (real current) (real total_variants) of
           Inl e \<Rightarrow> record_unit_error product variant e st2
         | Inr q \<Rightarrow>
             update_entry (\<lambda>p. p\<lparr> jp_current := current,
                                   jp_successful := Some successful_updates,
                                   jp_percentage := py_int (q * 100),
                                   jp_current_item := Some (p_title product @ '' - '' @
                                     (case v_title variant of
                                        None \<Rightarrow> default_variant_title | Some t \<Rightarrow> t)) \<rparr>) st2)))"

text \<open>The inner loop \<open>for variant in product.get('variants', [])\<close>.\<close>

fun process_variants ::
  "env \<Rightarrow> DiscountStrategy \<Rightarrow> real \<Rightarrow> real option \<Rightarrow> string \<Rightarrow> nat \<Rightarrow> product \<Rightarrow> variant list
     \<Rightarrow> job_state \<Rightarrow> job_state" where
  "process_variants env strategy value target_discount session_id total_variants product [] st = st"
| "process_variants env strategy value target_discount session_id total_variants product
       (variant # variants) st =
     process_variants env strategy value target_discount session_id total_variants product variants
       (process_variant env strategy value target_discount session_id total_variants product
          variant st)"

text \<open>The outer loop \<open>for product in products\<close>.\<close>

fun process_products ::
  "env \<Rightarrow> DiscountStrategy \<Rightarrow> real \<Rightarrow> real option \<Rightarrow> string \<Rightarrow> nat \<Rightarrow> product list
     \<Rightarrow> job_state \<Rightarrow> job_state" where
  "process_products env strategy value target_discount session_id total_variants [] st = st"
| "process_products env strategy value target_discount session_id total_variants
       (product # products) st =
     process_products env strategy value target_discount session_id total_variants products
       (process_variants env strategy value target_discount session_id total_variants product
          (p_variants product) st)"

text \<open>The registry entry that the job writes first.\<close>

definition initial_progress :: "string \<Rightarrow> DiscountStrategy \<Rightarrow> job_progress" where
  "initial_progress session_id strategy =
     \<lparr> jp_status = ''initializing'', jp_current = 0, jp_total = 0, jp_percentage = 0,
       jp_current_item = None, jp_errors = [], jp_session_id = session_id,
       jp_strategy = strategy_value strategy, jp_successful = None, jp_completed_at = None,
       jp_final_stats = None, jp_error = None \<rparr>"

definition initial_job_state :: "string \<Rightarrow> DiscountStrategy \<Rightarrow> job_state" where
  "initial_job_state session_id strategy =
     \<lparr> js_current = 0, js_successful_updates = 0,
       js_entry = initial_progress session_id strategy, js_history = [],
       js_writes = [Assign (initial_progress session_id strategy)],
       js_sent = [], js_logged = [] \<rparr>"

text \<open>
  The outer \<open>try\<close> block of \<open>process_discount_update\<close> after the first write: an
  exception that leaves it comes with the state reached.
\<close>

definition process_discount_update_try ::
  "env \<Rightarrow> string \<Rightarrow> DiscountStrategy \<Rightarrow> real \<Rightarrow> real option \<Rightarrow> string \<Rightarrow> string option
     \<Rightarrow> int option \<Rightarrow> job_state \<Rightarrow> (exn + unit) \<times> job_state" where
  "process_discount_update_try env session_id strategy value target_discount filter_type
       filter_value limit_products st0 =
     (case get_filtered_products env filter_type filter_value limit_products of
        Inl e \<Rightarrow> (Inl e, st0)
      | Inr products \<Rightarrow>
     (let total_variants = sum_list (map (\<lambda>p. length (p_variants p)) products);
          st1 = update_entry (\<lambda>p. p\<lparr> jp_total := total_variants,
                                       jp_status := ''processing'' \<rparr>) st0;
          st2 = process_products env strategy value target_discount session_id total_variants
                  products (st1\<lparr> js_current := 0, js_successful_updates := 0 \<rparr>);
          st3 = update_entry (\<lambda>p. p\<lparr> jp_status := ''completed'',
                                       jp_completed_at := Some (clock_isoformat env),
                                       jp_final_stats := Some
                                         \<lparr> fs_total_processed = js_current st2,
                                           fs_successful_updates = js_successful_updates st2,
                                           fs_errors_count = length (jp_errors p) \<rparr> \<rparr>) st2
      in (Inr (), st3)))"

text \<open>
  \<open>process_discount_update\<close>, run for one job from its first write to its last. The
  result holds the final registry entry, every earlier value of it, and the effects.
\<close>

definition process_discount_update ::
  "env \<Rightarrow> string \<Rightarrow> string \<Rightarrow> DiscountStrategy \<Rightarrow> real \<Rightarrow> real option \<Rightarrow> string
     \<Rightarrow> string option \<Rightarrow> int option \<Rightarrow> job_state" where
  "process_discount_update env task_id session_id strategy value target_discount filter_type
       filter_value limit_products =
     (case process_discount_update_try env session_id strategy value target_discount filter_type
             filter_value limit_products (initial_job_state session_id strategy) of
        (Inr u, st) \<Rightarrow> st
      | (Inl e, st) \<Rightarrow>
          update_entry (\<lambda>p. p\<lparr> jp_status := ''failed'', jp_error := Some (str_exn e) \<rparr>) st)"

subsection \<open>update\_prices\<close>

text \<open>
  The \<open>detail\<close> of the HTTP 400 response, the prefix of the
  \<open>message\<close> of the response, and the middle of the session description.
\<close>

definition msg_bad_strategy :: string where
  "msg_bad_strategy =
     [CHR 0xD0, CHR 0x9D, CHR 0xD0, CHR 0xB5, CHR 0xD0, CHR 0xB2, CHR 0xD1, CHR 0x96, CHR 0xD1,
      CHR 0x80, CHR 0xD0, CHR 0xBD, CHR 0xD0, CHR 0xB0] @
     '' '' @
     [CHR 0xD1, CHR 0x81, CHR 0xD1, CHR 0x82, CHR 0xD1, CHR 0x80, CHR 0xD0, CHR 0xB0, CHR 0xD1,
      CHR 0x82, CHR 0xD0, CHR 0xB5, CHR 0xD0, CHR 0xB3, CHR 0xD1, CHR 0x96, CHR 0xD1, CHR 0x8F] @
     '' '' @
     [CHR 0xD0, CHR 0xB7, CHR 0xD0, CHR 0xBD, CHR 0xD0, CHR 0xB8, CHR 0xD0, CHR 0xB6, CHR 0xD0,
      CHR 0xBA, CHR 0xD0, CHR 0xB8]"

definition msg_started :: string where
  "msg_started =
     [CHR 0xD0, CHR 0x9E, CHR 0xD0, CHR 0xBD, CHR 0xD0, CHR 0xBE, CHR 0xD0, CHR 0xB2, CHR 0xD0,
      CHR 0xBB, CHR 0xD0, CHR 0xB5, CHR 0xD0, CHR 0xBD, CHR 0xD0, CHR 0xBD, CHR 0xD1, CHR 0x8F] @
     '' '' @
     [CHR 0xD0, CHR 0xB7, CHR 0xD0, CHR 0xBD, CHR 0xD0, CHR 0xB8, CHR 0xD0, CHR 0xB6, CHR 0xD0,
      CHR 0xBE, CHR 0xD0, CHR 0xBA] @
     '' '' @
     [CHR 0xD1, CHR 0x80, CHR 0xD0, CHR 0xBE, CHR 0xD0, CHR 0xB7, CHR 0xD0, CHR 0xBF, CHR 0xD0,
      CHR 0xBE, CHR 0xD1, CHR 0x87, CHR 0xD0, CHR 0xB0, CHR 0xD1, CHR 0x82, CHR 0xD0, CHR 0xBE] @
     '': ''"

definition session_value_label :: string where
  "session_value_label =
     '' - '' @
     [CHR 0xD0, CHR 0xB7, CHR 0xD0, CHR 0xBD, CHR 0xD0, CHR 0xB0, CHR 0xD1, CHR 0x87, CHR 0xD0,
      CHR 0xB5, CHR 0xD0, CHR 0xBD, CHR 0xD0, CHR 0xBD, CHR 0xD1, CHR 0x8F] @
     '': ''"

text \<open>\<open>DiscountStrategy(strategy)\<close>: the member with that value, or \<open>ValueError\<close>.\<close>

definition DiscountStrategy_of :: "string \<Rightarrow> exn + DiscountStrategy" where
  "DiscountStrategy_of s =
     (if s = ''increase_compare_only'' then Inr INCREASE_COMPARE_ONLY
      else if s = ''decrease_price_only'' then Inr DECREASE_PRICE_ONLY
      else if s = ''both_directions'' then Inr BOTH_DIRECTIONS
      else if s = ''set_discount_percentage'' then Inr SET_DISCOUNT_PERCENTAGE
      else Inl (ValueError s))"

text \<open>The arguments of one call of \<open>process_discount_update\<close>, queued as a background task.\<close>

record task =
  t_task_id :: string
  t_session_id :: string
  t_strategy :: DiscountStrategy
  t_value :: real
  t_target_discount :: "real option"
  t_filter_type :: string
  t_filter_value :: "string option"
  t_limit_products :: "int option"

record start_response =
  sr_task_id :: string
  sr_session_id :: string
  sr_status :: string
  sr_message :: string

text \<open>
  What one call of \<open>update_prices\<close> does: its response or exception, the rollback
  sessions it has created (identifier, operation type, description) and the background
  tasks it has queued.
\<close>

record start_outcome =
  so_result :: "exn + start_response"
  so_sessions :: "(string \<times> string \<times> string) list"
  so_tasks :: "task list"

text \<open>\<open>update_prices\<close>, the job-start endpoint.\<close>

definition update_prices ::
  "env \<Rightarrow> string \<Rightarrow> real \<Rightarrow> real option \<Rightarrow> string \<Rightarrow> string option \<Rightarrow> int option
     \<Rightarrow> start_outcome" where
  "update_prices env strategy value target_discount filter_type filter_value limit_products =
     (case DiscountStrategy_of strategy of
        Inl e \<Rightarrow>
          \<lparr> so_result = Inl (HTTPException 400 msg_bad_strategy), so_sessions = [], so_tasks = [] \<rparr>
      | Inr discount_strategy \<Rightarrow>
     (let strategy_description = get_strategy_description discount_strategy;
          description = strategy_description @ session_value_label @ str_float env value @ ''%''
      in case db_create_rollback_session env ''DISCOUNT_UPDATE'' description of
           Inl e \<Rightarrow> \<lparr> so_result = Inl e, so_sessions = [], so_tasks = [] \<rparr>
         | Inr session_id \<Rightarrow>
     (let task_id = ''discount_update_'' @ dec_digits (clock_time env)
      in \<lparr> so_result = Inr \<lparr> sr_task_id = task_id, sr_session_id = session_id,
                              sr_status = ''started'',
                              sr_message = msg_started @ strategy_description \<rparr>,
           so_sessions = [(session_id, ''DISCOUNT_UPDATE'', description)],
           so_tasks = [\<lparr> t_task_id = task_id, t_session_id = session_id,
                        t_strategy = discount_strategy, t_value = value,
                        t_target_discount = target_discount, t_filter_type = filter_type,
                        t_filter_value = filter_value,
                        t_limit_products = limit_products \<rparr>] \<rparr>)))"

text \<open>
  The writes of one run of \<open>process_discount_update\<close> to the shared registry: its
  writes, each under the key \<open>task_id\<close>.
\<close>

definition job_writes ::
  "env \<Rightarrow> string \<Rightarrow> string \<Rightarrow> DiscountStrategy \<Rightarrow> real \<Rightarrow> real option \<Rightarrow> string
     \<Rightarrow> string option \<Rightarrow> int option \<Rightarrow> (string \<times> entry_write) list" where
  "job_writes env task_id session_id strategy value target_discount filter_type filter_value
       limit_products =
     map (Pair task_id)
       (js_writes (process_discount_update env task_id session_id strategy value target_discount
                     filter_type filter_value limit_products))"

text \<open>Running a queued background task.\<close>

definition run_task :: "env \<Rightarrow> task \<Rightarrow> job_state" where
  "run_task env t =
     process_discount_update env (t_task_id t) (t_session_id t) (t_strategy t) (t_value t)
       (t_target_discount t) (t_filter_type t) (t_filter_value t) (t_limit_products t)"

section \<open>Definitions used to state the properties\<close>

text \<open>
  The three rows of the specification's per-strategy table that take no target percentage,
  written from the specification's words: \<open>comparePrice\<close> is the existing compare
  price, \<open>None\<close> when it is absent. The row of \<open>SET_DISCOUNT_PERCENTAGE\<close> needs
  a target percentage and is not part of this function.
\<close>

fun table_new_prices ::
  "real \<Rightarrow> real option \<Rightarrow> DiscountStrategy \<Rightarrow> real \<Rightarrow> real \<times> real option" where
  "table_new_prices currentPrice comparePrice INCREASE_COMPARE_ONLY value =
     (currentPrice,
      Some ((case comparePrice of Some existing \<Rightarrow> existing | None \<Rightarrow> currentPrice)
            * (1 + value / 100)))"
| "table_new_prices currentPrice comparePrice DECREASE_PRICE_ONLY value =
     (currentPrice * (1 - \<bar>value\<bar> / 100),
      Some (case comparePrice of Some existing \<Rightarrow> existing | None \<Rightarrow> currentPrice))"
| "table_new_prices currentPrice comparePrice BOTH_DIRECTIONS value =
     (currentPrice * (1 + value / 100),
      Some (case comparePrice of
              Some existing \<Rightarrow> existing * (1 + 1.5 * value / 100)
            | None \<Rightarrow> currentPrice * (1 + 2 * \<bar>value\<bar> / 100)))"

text \<open>The compare price as the code's truthiness tests see it: a price of 0 is no price.\<close>

definition effective_compare :: "real option \<Rightarrow> real option" where
  "effective_compare c = (if truthy c then c else None)"

text \<open>
  \<open>y\<close> is \<open>x\<close> rounded to two decimal places: \<open>y\<close> has at most two decimals
  and lies within half a hundredth of \<open>x\<close>.
\<close>

definition is_rounding_of :: "real \<Rightarrow> real \<Rightarrow> bool" where
  "is_rounding_of y x = (two_decimals y \<and> \<bar>y - x\<bar> \<le> 1 / 200)"

text \<open>
  The priced units of a list of products in the order the two loops visit them, each with
  its product.
\<close>

definition units_of :: "product list \<Rightarrow> (product \<times> variant) list" where
  "units_of products = concat (map (\<lambda>p. map (Pair p) (p_variants p)) products)"

text \<open>
  What \<open>update_single_variant_discount\<close> returns for a unit, by component: whether it
  returns \<open>True\<close>, the requests it issues, the history rows it writes.
\<close>

definition unit_succeeds ::
  "env \<Rightarrow> DiscountStrategy \<Rightarrow> real \<Rightarrow> real option \<Rightarrow> string \<Rightarrow> product \<times> variant \<Rightarrow> bool" where
  "unit_succeeds env strategy value target_discount session_id u =
     (fst (update_single_variant_discount env (fst u) (snd u) strategy value target_discount
             session_id) = Inr True)"

definition unit_requests ::
  "env \<Rightarrow> DiscountStrategy \<Rightarrow> real \<Rightarrow> real option \<Rightarrow> string \<Rightarrow> product \<times> variant
     \<Rightarrow> payload list" where
  "unit_requests env strategy value target_discount session_id u =
     fst (snd (update_single_variant_discount env (fst u) (snd u) strategy value target_discount
                 session_id))"

definition unit_rows ::
  "env \<Rightarrow> DiscountStrategy \<Rightarrow> real \<Rightarrow> real option \<Rightarrow> string \<Rightarrow> product \<times> variant
     \<Rightarrow> price_change list" where
  "unit_rows env strategy value target_discount session_id u =
     snd (snd (update_single_variant_discount env (fst u) (snd u) strategy value target_discount
                 session_id))"

text \<open>The label that the loop body stores in \<open>current_item\<close>.\<close>

definition item_label :: "product \<Rightarrow> variant \<Rightarrow> string" where
  "item_label product variant =
     p_title product @ '' - '' @
       (case v_title variant of None \<Rightarrow> default_variant_title | Some t \<Rightarrow> t)"

text \<open>The two loops as one pass over the units.\<close>

definition run_units ::
  "env \<Rightarrow> DiscountStrategy \<Rightarrow> real \<Rightarrow> real option \<Rightarrow> string \<Rightarrow> nat
     \<Rightarrow> (product \<times> variant) list \<Rightarrow> job_state \<Rightarrow> job_state" where
  "run_units env strategy value target_discount session_id total_variants units st =
     fold (\<lambda>u. process_variant env strategy value target_discount session_id total_variants
                 (fst u) (snd u)) units st"

text \<open>The state of a job when its loops end, for the products that the enumeration returned.\<close>

definition loop_result ::
  "env \<Rightarrow> string \<Rightarrow> DiscountStrategy \<Rightarrow> real \<Rightarrow> real option \<Rightarrow> product list \<Rightarrow> job_state" where
  "loop_result env session_id strategy value target_discount products =
     run_units env strategy value target_discount session_id (length (units_of products))
       (units_of products)
       (update_entry (\<lambda>p. p\<lparr> jp_total := length (units_of products),
                              jp_status := ''processing'' \<rparr>)
          (initial_job_state session_id strategy))"

text \<open>
  No counter of \<open>q\<close> is below that of \<open>p\<close>. The key \<open>successful\<close> is compared as
  an option: an absent key is below every count.
\<close>

definition counters_le :: "job_progress \<Rightarrow> job_progress \<Rightarrow> bool" where
  "counters_le p q = (jp_current p \<le> jp_current q \<and> jp_percentage p \<le> jp_percentage q
                      \<and> jp_successful p \<le> jp_successful q)"

text \<open>
  The invariant of the loops: the counters have never gone down, and the registry entry
  agrees with the local variables.
\<close>

definition job_inv :: "nat \<Rightarrow> job_state \<Rightarrow> bool" where
  "job_inv total_variants st =
     (sorted_wrt counters_le (progress_trace st)
      \<and> jp_current (js_entry st) = js_current st
      \<and> jp_successful (js_entry st) \<le> Some (js_successful_updates st)
      \<and> jp_percentage (js_entry st)
          = py_int (real (js_current st) / real total_variants * 100))"

text \<open>
  The entry under one key after each of a sequence of writes to that key, starting from
  \<open>old\<close>.
\<close>

fun entry_states :: "entry_write list \<Rightarrow> job_progress option \<Rightarrow> job_progress option list" where
  "entry_states [] old = []"
| "entry_states (w # ws) old = apply_entry_write w old # entry_states ws (apply_entry_write w old)"

text \<open>The writes of a run that go to the key \<open>k\<close>, in their order.\<close>

definition writes_under :: "string \<Rightarrow> (string \<times> entry_write) list \<Rightarrow> entry_write list" where
  "writes_under k ws = map snd (filter (\<lambda>w. fst w = k) ws)"

text \<open>
  The writes that a job has logged produce, on a key that was absent and that nobody else
  writes, exactly the entries of its \<open>progress_trace\<close>.
\<close>

definition writes_agree :: "job_state \<Rightarrow> bool" where
  "writes_agree st =
     (entry_states (js_writes st) None = map Some (progress_trace st)
      \<and> fold apply_entry_write (js_writes st) None = Some (js_entry st))"

subsection \<open>A small catalogue and its collaborators\<close>

text \<open>One product with two priced units, 11 and 12.\<close>

definition example_products :: "product list" where
  "example_products =
     [\<lparr> p_id = 1, p_title = ''Shirt'',
        p_variants =
          [\<lparr> v_id = 11, v_title = Some ''S'', v_price = 100, v_compare_at_price = Some 120 \<rparr>,
           \<lparr> v_id = 12, v_title = None, v_price = 50, v_compare_at_price = None \<rparr>] \<rparr>]"

text \<open>
  Collaborators for the examples: every enumeration gives \<open>catalogue\<close>, update requests
  are answered by \<open>put\<close>, history rows are taken by \<open>store\<close>, sessions are always
  created, the clock stands still. The only value whose default formatting the examples
  need is \<open>10.0\<close>.
\<close>

definition example_env ::
  "(exn + product list) \<Rightarrow> (payload \<Rightarrow> exn + unit) \<Rightarrow> (price_change \<Rightarrow> exn + unit)
     \<Rightarrow> env" where
  "example_env catalogue put store =
     \<lparr> shopify_get_products = (\<lambda>limit filters. catalogue),
       shopify_get_products_smart = (\<lambda>identifier limit. catalogue),
       shopify_put_variant = put,
       db_log_price_change = store,
       db_create_rollback_session = (\<lambda>operation_type description. Inr ''session-1''),
       clock_time = 1700000000,
       clock_isoformat = ''2024-01-01T00:00:00'',
       str_float = (\<lambda>x. ''10.0'') \<rparr>"

text \<open>
  One job over the whole catalogue (filter \<open>all\<close>, no limit) with these collaborators.
\<close>

definition example_run ::
  "(exn + product list) \<Rightarrow> (payload \<Rightarrow> exn + unit) \<Rightarrow> (price_change \<Rightarrow> exn + unit)
     \<Rightarrow> DiscountStrategy \<Rightarrow> real \<Rightarrow> real option \<Rightarrow> job_state" where
  "example_run catalogue put store strategy value target_discount =
     process_discount_update (example_env catalogue put store) ''discount_update_1700000000''
       ''session-1'' strategy value target_discount ''all'' None None"

text \<open>A remote service that accepts every update.\<close>

definition always_ok :: "payload \<Rightarrow> exn + unit" where
  "always_ok request = Inr ()"

text \<open>A history store that takes every row, and one that fails for the rows of unit \<open>k\<close>.\<close>

definition history_ok :: "price_change \<Rightarrow> exn + unit" where
  "history_ok change = Inr ()"

definition history_fails_for :: "nat \<Rightarrow> price_change \<Rightarrow> exn + unit" where
  "history_fails_for k change =
     (if pc_variant_id change = k then Inl (CollaboratorError ''database is locked'') else Inr ())"

text \<open>A remote service that rejects the updates of unit \<open>k\<close> and accepts all others.\<close>

definition fails_for :: "nat \<Rightarrow> payload \<Rightarrow> exn + unit" where
  "fails_for k request =
     (if pl_id request = k then Inl (CollaboratorError ''422 Unprocessable Entity'') else Inr ())"

text \<open>
  The registry writes of a job over the example catalogue, started at the second of the
  example clock: the key is the one that \<open>update_prices\<close> makes from that clock.
\<close>

definition example_writes :: "DiscountStrategy \<Rightarrow> real \<Rightarrow> (string \<times> entry_write) list" where
  "example_writes strategy value =
     job_writes (example_env (Inr example_products) always_ok history_ok)
       ''discount_update_1700000000'' ''session-1'' strategy value None ''all'' None None"

section \<open>Properties of the price arithmetic\<close>

subsection \<open>Auxiliary facts\<close>

lemma calculate_new_prices_Some:
  assumes "calculate_new_prices p c s v t = Inr (np, nc)"
  shows "\<exists>x. nc = Some x"
  using assms
  by (cases s) (auto simp: Let_def split: option.splits sum.splits)

lemma round_half_even_close: "\<bar>of_int (round_half_even x) - x\<bar> \<le> 1 / 2"
proof -
  have "of_int \<lfloor>x\<rfloor> \<le> x" "x < of_int \<lfloor>x\<rfloor> + 1" by linarith+
  then show ?thesis
    by (auto simp: round_half_even_def Let_def)
qed

lemma two_decimals_py_round2: "two_decimals (py_round2 x)"
  by (simp add: two_decimals_def py_round2_def)

lemma py_round2_close: "\<bar>py_round2 x - x\<bar> \<le> 1 / 200"
proof -
  have "\<bar>of_int (round_half_even (x * 100)) - x * 100\<bar> \<le> 1 / 2"
    by (rule round_half_even_close)
  then show ?thesis unfolding py_round2_def by linarith
qed

lemma py_round2_is_rounding: "is_rounding_of (py_round2 x) x"
  using py_round2_close [of x] by (simp add: is_rounding_of_def two_decimals_py_round2)

lemma dec_digits_nonempty: "dec_digits n \<noteq> []"
  by (subst dec_digits.simps) simp

lemma format_2f_nonempty: "format_2f x \<noteq> []"
  by (simp add: format_2f_def Let_def)

lemma guarded_discount_returns: "\<exists>d. guarded_discount p c = Inr d"
  by (cases c) (auto simp: guarded_discount_def calculate_discount_percentage_def py_div_def)

subsection \<open>C1: the per-strategy table\<close>

text \<open>
  C1, as stated, fails. The claim reads the table with "existing compare price" meaning any
  compare price that is present. The code tests the compare price by truthiness, so a
  compare price that is present and equal to 0 takes the branch of an absent one: at
  current price 100, compare price 0 and value 15, \<open>INCREASE_COMPARE_ONLY\<close> returns the
  compare price 115 where the table gives 0.
\<close>

theorem calculate_new_prices_zero_compare_counterexample:
  "calculate_new_prices 100 (Some 0) INCREASE_COMPARE_ONLY 15 None
     \<noteq> Inr (table_new_prices 100 (Some 0) INCREASE_COMPARE_ONLY 15)"
  by simp

text \<open>
  C1, amended: for every current price above 0, every value and every optional compare
  price, \<open>calculate_new_prices\<close> under \<open>INCREASE_COMPARE_ONLY\<close>,
  \<open>DECREASE_PRICE_ONLY\<close> and \<open>BOTH_DIRECTIONS\<close> returns exactly the pair of the
  table, where a compare price of 0 counts as absent. In particular it returns the pair of
  the table as the claim reads it whenever the compare price is not 0.
\<close>

theorem calculate_new_prices_follows_table:
  assumes "0 < p" and "s \<noteq> SET_DISCOUNT_PERCENTAGE"
  shows "calculate_new_prices p c s v t = Inr (table_new_prices p (effective_compare c) s v)
       \<and> (c \<noteq> Some 0 \<longrightarrow> calculate_new_prices p c s v t = Inr (table_new_prices p c s v))"
proof -
  have eff: "c \<noteq> Some 0 \<Longrightarrow> effective_compare c = c"
    by (cases c) (simp_all add: effective_compare_def)
  have "calculate_new_prices p c s v t = Inr (table_new_prices p (effective_compare c) s v)"
  proof (cases s)
    case INCREASE_COMPARE_ONLY
    then show ?thesis by (cases c) (simp_all add: effective_compare_def)
  next
    case DECREASE_PRICE_ONLY
    then show ?thesis by (cases c) (simp_all add: effective_compare_def)
  next
    case BOTH_DIRECTIONS
    then show ?thesis by (cases c) (simp_all add: effective_compare_def abs_mult)
  next
    case SET_DISCOUNT_PERCENTAGE
    with assms show ?thesis by simp
  qed
  with eff show ?thesis by simp
qed

theorem calculate_new_prices_follows_table_witness:
  "(0::real) < 100 \<and> BOTH_DIRECTIONS \<noteq> SET_DISCOUNT_PERCENTAGE \<and> Some (120::real) \<noteq> Some 0 \<and>
   calculate_new_prices 100 (Some 120) BOTH_DIRECTIONS 10 None = Inr (110, Some 138)"
  using calculate_new_prices_follows_table [of 100 BOTH_DIRECTIONS "Some 120" 10 None]
  by (simp add: effective_compare_def)

subsection \<open>C3: the discount percentage\<close>

text \<open>
  C3, as stated, fails: it quantifies over all prices, negative ones too, and the code has
  no guard for them. At price -10 and compare price -5 the compare price is the larger
  one, the code divides by it and returns -100.
\<close>

theorem discount_percentage_negative_counterexample:
  "calculate_discount_percentage (- 10) (- 5) = Inr (- 100) \<and> \<not> (0::real) \<le> - 100"
  by (simp add: calculate_discount_percentage_def py_div_def)

text \<open>
  C3, amended: for all price and compare price such that the compare price is at most the
  price or is above 0 (so for every price that is not negative),
  \<open>calculate_discount_percentage\<close> returns a value that is at least 0; the value is 0
  whenever the compare price is at most the price, and
  \<open>(comparePrice - price) / comparePrice * 100\<close> otherwise.
\<close>

theorem discount_percentage_nonneg:
  assumes "cmp \<le> price \<or> 0 < cmp"
  shows "\<exists>d. calculate_discount_percentage price cmp = Inr d \<and> 0 \<le> d
           \<and> (cmp \<le> price \<longrightarrow> d = 0)
           \<and> (\<not> cmp \<le> price \<longrightarrow> d = (cmp - price) / cmp * 100)"
proof (cases "cmp \<le> price")
  case True
  then show ?thesis by (simp add: calculate_discount_percentage_def)
next
  case False
  with assms have pos: "0 < cmp" by simp
  from False have "0 \<le> (cmp - price) / cmp * 100" using pos by simp
  with False pos show ?thesis
    by (simp add: calculate_discount_percentage_def py_div_def)
qed

theorem discount_percentage_nonneg_witness:
  "((120::real) \<le> 90 \<or> (0::real) < 120) \<and> calculate_discount_percentage 90 120 = Inr 25"
  using discount_percentage_nonneg [of 120 90]
  by (simp add: calculate_discount_percentage_def py_div_def)

subsection \<open>Auxiliary facts about binary64 rounding\<close>

text \<open>
  The spacing at \<open>x\<close> is at most \<open>\<bar>x\<bar> / 2^52\<close> for a normal magnitude and
  \<open>2^-1074\<close> below; a rounded value is within half a spacing of the exact one, is
  finite when the exact magnitude is below \<open>2^1024 - 2^970\<close>, and is then at most
  \<open>2^1024 - 2^971\<close>, the largest binary64 number.
\<close>

lemma b64_grid_pos: "0 < b64_grid x"
  by (simp add: b64_grid_def)

lemma floor_log2_eq:
  assumes "2 powr of_int e \<le> x" and "x < 2 powr (of_int e + 1)"
  shows "\<lfloor>log 2 x\<rfloor> = e"
proof -
  have "0 < (2::real) powr of_int e" by simp
  then have pos: "0 < x" using assms(1) by linarith
  have "of_int e \<le> log 2 x"
    using assms pos by (simp add: le_log_iff)
  moreover have "log 2 x < of_int e + 1"
    using assms pos by (simp add: log_less_iff)
  ultimately show ?thesis by linarith
qed

lemma floor_log2_bounds:
  assumes "x \<noteq> 0"
  shows "2 powr of_int \<lfloor>log 2 \<bar>x\<bar>\<rfloor> \<le> \<bar>x\<bar>"
    and "\<bar>x\<bar> < 2 powr (of_int \<lfloor>log 2 \<bar>x\<bar>\<rfloor> + 1)"
proof -
  have pos: "0 < \<bar>x\<bar>" using assms by simp
  have x: "2 powr log 2 \<bar>x\<bar> = \<bar>x\<bar>" using pos by simp
  have "of_int \<lfloor>log 2 \<bar>x\<bar>\<rfloor> \<le> log 2 \<bar>x\<bar>" by simp
  then have "(2::real) powr of_int \<lfloor>log 2 \<bar>x\<bar>\<rfloor> \<le> 2 powr log 2 \<bar>x\<bar>"
    by (intro powr_mono) simp_all
  then show "2 powr of_int \<lfloor>log 2 \<bar>x\<bar>\<rfloor> \<le> \<bar>x\<bar>"
    using x by simp
  have "log 2 \<bar>x\<bar> < of_int \<lfloor>log 2 \<bar>x\<bar>\<rfloor> + 1" by linarith
  then have "(2::real) powr log 2 \<bar>x\<bar> < 2 powr (of_int \<lfloor>log 2 \<bar>x\<bar>\<rfloor> + 1)"
    by (intro powr_less_mono) simp_all
  then show "\<bar>x\<bar> < 2 powr (of_int \<lfloor>log 2 \<bar>x\<bar>\<rfloor> + 1)"
    using x by simp
qed

lemma b64_grid_eq:
  assumes "2 powr of_int e \<le> \<bar>x\<bar>" and "\<bar>x\<bar> < 2 powr (of_int e + 1)"
  shows "b64_grid x = 2 powr (of_int (max e (- 1022)) - 52)"
  using floor_log2_eq [OF assms] by (simp add: b64_grid_def)

lemma b64_grid_le_normal:
  assumes "1 / 2 ^ 1022 \<le> \<bar>x\<bar>"
  shows "b64_grid x \<le> \<bar>x\<bar> / 2 ^ 52"
proof -
  have nz: "x \<noteq> 0" using assms by auto
  have "(2::real) powr (- 1022) \<le> \<bar>x\<bar>"
    using assms by (simp add: powr_neg_numeral)
  then have "- 1022 \<le> log 2 \<bar>x\<bar>"
    using nz by (simp add: le_log_iff)
  then have "- 1022 \<le> \<lfloor>log 2 \<bar>x\<bar>\<rfloor>" by linarith
  then have "max \<lfloor>log 2 \<bar>x\<bar>\<rfloor> (- 1022) = \<lfloor>log 2 \<bar>x\<bar>\<rfloor>" by simp
  then have "b64_grid x = 2 powr of_int \<lfloor>log 2 \<bar>x\<bar>\<rfloor> / 2 ^ 52"
    by (simp add: b64_grid_def powr_diff)
  then show ?thesis
    using floor_log2_bounds(1) [OF nz] by (simp add: divide_right_mono)
qed

lemma b64_grid_le:
  assumes nz: "x \<noteq> 0"
  shows "b64_grid x \<le> \<bar>x\<bar> / 2 ^ 52 + 1 / 2 ^ 1074"
proof (cases "1 / 2 ^ 1022 \<le> \<bar>x\<bar>")
  case True
  then show ?thesis using b64_grid_le_normal [of x] by simp
next
  case False
  have "\<bar>x\<bar> < 2 powr (- 1022)"
    using False by (simp add: powr_neg_numeral)
  then have "log 2 \<bar>x\<bar> < - 1022"
    using nz by (simp add: log_less_iff)
  then have "\<lfloor>log 2 \<bar>x\<bar>\<rfloor> \<le> - 1022" by linarith
  then have "max \<lfloor>log 2 \<bar>x\<bar>\<rfloor> (- 1022) = - 1022" by simp
  then have "b64_grid x = 2 powr (- 1074)"
    by (simp add: b64_grid_def)
  then have "b64_grid x = 1 / 2 ^ 1074"
    by (simp add: powr_neg_numeral)
  then show ?thesis by simp
qed

lemma round_to_b64_grid_error:
  assumes "round_to_b64 x = Finite y"
  shows "\<bar>y - x\<bar> \<le> b64_grid x / 2"
proof (cases "x = 0")
  case True
  then show ?thesis using assms b64_grid_pos [of 0] by (simp add: round_to_b64_def)
next
  case False
  define g where "g = b64_grid x"
  have g: "0 < g" by (simp add: g_def b64_grid_pos)
  have y: "y = of_int (round_half_even (x / g)) * g"
    using assms False by (simp add: round_to_b64_def Let_def g_def split: if_splits)
  have "\<bar>of_int (round_half_even (x / g)) - x / g\<bar> \<le> 1 / 2"
    by (rule round_half_even_close)
  then have "\<bar>of_int (round_half_even (x / g)) - x / g\<bar> * g \<le> (1 / 2) * g"
    using g by (simp add: mult_right_mono)
  moreover have "\<bar>of_int (round_half_even (x / g)) - x / g\<bar> * g = \<bar>y - x\<bar>"
  proof -
    have "\<bar>of_int (round_half_even (x / g)) - x / g\<bar> * g
          = \<bar>(of_int (round_half_even (x / g)) - x / g) * g\<bar>"
      using g by (simp add: abs_mult)
    also have "(of_int (round_half_even (x / g)) - x / g) * g = y - x"
      using g by (simp add: y left_diff_distrib)
    finally show ?thesis .
  qed
  ultimately show ?thesis by (simp add: g_def)
qed

lemma round_to_b64_error:
  assumes "round_to_b64 x = Finite y"
  shows "\<bar>y - x\<bar> \<le> \<bar>x\<bar> / 2 ^ 53 + 1 / 2 ^ 1075"
proof (cases "x = 0")
  case True
  then show ?thesis using assms by (simp add: round_to_b64_def)
next
  case False
  then show ?thesis
    using round_to_b64_grid_error [OF assms] b64_grid_le [of x] by simp
qed

lemma round_to_b64_error_normal:
  assumes "round_to_b64 x = Finite y" and "1 / 2 ^ 1022 \<le> \<bar>x\<bar>"
  shows "\<bar>y - x\<bar> \<le> \<bar>x\<bar> / 2 ^ 53"
  using round_to_b64_grid_error [OF assms(1)] b64_grid_le_normal [OF assms(2)] by simp

lemma round_to_b64_pos_cases:
  assumes "0 < x"
  shows "round_to_b64 x = PosInf \<or> (\<exists>y. round_to_b64 x = Finite y)"
  using assms by (simp add: round_to_b64_def Let_def)


lemma grid_round_close:
  assumes g: "0 < g"
  shows "\<bar>of_int (round_half_even (x / g)) * g - x\<bar> \<le> g / 2"
proof -
  have "\<bar>of_int (round_half_even (x / g)) - x / g\<bar> \<le> 1 / 2"
    by (rule round_half_even_close)
  then have "\<bar>of_int (round_half_even (x / g)) - x / g\<bar> * g \<le> (1 / 2) * g"
    using g by (simp add: mult_right_mono)
  moreover have "\<bar>of_int (round_half_even (x / g)) - x / g\<bar> * g
      = \<bar>of_int (round_half_even (x / g)) * g - x\<bar>"
  proof -
    have "\<bar>of_int (round_half_even (x / g)) - x / g\<bar> * g
          = \<bar>(of_int (round_half_even (x / g)) - x / g) * g\<bar>"
      using g by (simp add: abs_mult)
    also have "(of_int (round_half_even (x / g)) - x / g) * g
          = of_int (round_half_even (x / g)) * g - x"
      using g by (simp add: left_diff_distrib)
    finally show ?thesis .
  qed
  ultimately show ?thesis by simp
qed

lemma int_abs_less_pow:
  fixes n :: int
  assumes "\<bar>real_of_int n\<bar> < 2 ^ 53"
  shows "\<bar>real_of_int n\<bar> \<le> 2 ^ 53 - 1"
proof -
  have "real_of_int \<bar>n\<bar> < real_of_int (2 ^ 53)" using assms by simp
  then have "\<bar>n\<bar> < 2 ^ 53" by (simp only: of_int_less_iff)
  then have "\<bar>n\<bar> \<le> 2 ^ 53 - 1" by simp
  then have "real_of_int \<bar>n\<bar> \<le> real_of_int (2 ^ 53 - 1)" by (simp only: of_int_le_iff)
  then show ?thesis by simp
qed

lemma abs_le_via:
  fixes a b :: real
  shows "\<bar>a\<bar> \<le> \<bar>a - b\<bar> + \<bar>b\<bar>"
  using abs_triangle_ineq [of "a - b" b] by simp

lemma abs_strict_boundI:
  fixes z :: real
  assumes "- b < z" and "z < b"
  shows "\<bar>z\<bar> < b"
  using assms by (simp add: abs_less_iff)

lemma round_to_b64_bounds:
  assumes "round_to_b64 x = Finite y" and "\<bar>x\<bar> \<le> b"
  shows "x - (b / 2 ^ 53 + 1 / 2 ^ 1075) \<le> y"
    and "y \<le> x + (b / 2 ^ 53 + 1 / 2 ^ 1075)"
proof -
  have "\<bar>y - x\<bar> \<le> \<bar>x\<bar> / 2 ^ 53 + 1 / 2 ^ 1075"
    by (rule round_to_b64_error [OF assms(1)])
  moreover have "\<bar>x\<bar> / 2 ^ 53 \<le> b / 2 ^ 53"
    using assms(2) by (simp add: divide_right_mono)
  ultimately have "\<bar>y - x\<bar> \<le> b / 2 ^ 53 + 1 / 2 ^ 1075" by (rule order_trans [OF _ add_right_mono])
  then have "- (b / 2 ^ 53 + 1 / 2 ^ 1075) \<le> y - x" and "y - x \<le> b / 2 ^ 53 + 1 / 2 ^ 1075"
    by (simp_all only: abs_le_iff minus_le_iff)
  then show "x - (b / 2 ^ 53 + 1 / 2 ^ 1075) \<le> y"
    and "y \<le> x + (b / 2 ^ 53 + 1 / 2 ^ 1075)"
    by (simp_all only: le_diff_eq diff_le_eq neg_le_iff_le algebra_simps)
qed

lemma round_to_b64_finite:
  assumes "\<bar>x\<bar> < 2 ^ 1024 - 2 ^ 970"
  shows "\<exists>y. round_to_b64 x = Finite y"
proof (cases "x = 0")
  case True
  then show ?thesis by (simp add: round_to_b64_def)
next
  case False
  define g where "g = b64_grid x"
  define n where "n = round_half_even (x / g)"
  have g: "0 < g" by (simp add: g_def b64_grid_pos)
  define z where "z = of_int n * g"
  have close: "\<bar>z - x\<bar> \<le> g / 2"
    unfolding z_def n_def by (rule grid_round_close [OF g])
  have "\<bar>z\<bar> < 2 ^ 1024"
  proof (cases "\<bar>x\<bar> < 2 ^ 1023")
    case True
    define ax where "ax = \<bar>x\<bar>"
    have ax: "x \<le> ax" "- ax \<le> x" "ax < 2 ^ 1023"
      using True by (simp_all add: ax_def)
    have "g \<le> ax / 2 ^ 52 + 1 / 2 ^ 1074"
      unfolding g_def ax_def by (rule b64_grid_le [OF False])
    moreover have "ax / 2 ^ 52 \<le> ax"
      by (simp add: ax_def field_simps)
    moreover have "1 / 2 ^ 1074 \<le> (1::real)" by simp
    ultimately have gle: "g \<le> ax + 1" by linarith
    have zx: "z - x \<le> g / 2" "- (g / 2) \<le> z - x"
      using close by (simp_all only: abs_le_iff minus_le_iff)
    have "z < 2 ^ 1023 + 2 ^ 1023 / 2 + 1 / 2" "- (2 ^ 1023 + 2 ^ 1023 / 2 + 1 / 2) < z"
      using zx gle ax by linarith+
    then have "- (2 ^ 1024) < z" "z < 2 ^ 1024" by simp_all
    then show ?thesis by (rule abs_strict_boundI)
  next
    case big: False
    have "(2::real) powr of_int 1023 \<le> \<bar>x\<bar>"
      using big by (simp del: power_numeral)
    moreover have "\<bar>x\<bar> < 2 powr (of_int 1023 + 1)"
    proof -
      have "\<bar>x\<bar> < 2 ^ 1024" using assms by simp
      then show ?thesis by simp
    qed
    ultimately have "b64_grid x = 2 powr (of_int (max 1023 (- 1022)) - 52)"
      by (rule b64_grid_eq)
    then have geq: "g = 2 ^ 971" by (simp add: g_def)
    have "\<bar>x\<bar> / 2 ^ 971 < (2 ^ 1024 - 2 ^ 970) / 2 ^ 971"
      using assms by (simp only: divide_strict_right_mono zero_less_power zero_less_numeral)
    then have xg: "\<bar>x / g\<bar> < 2 ^ 53 - 1 / 2"
      by (simp add: geq)
    have "\<bar>real_of_int n\<bar> \<le> \<bar>of_int n - x / g\<bar> + \<bar>x / g\<bar>"
      by (rule abs_le_via)
    moreover have "\<bar>of_int n - x / g\<bar> \<le> 1 / 2"
      unfolding n_def by (rule round_half_even_close)
    ultimately have "\<bar>real_of_int n\<bar> < 2 ^ 53" using xg by linarith
    then have "\<bar>real_of_int n\<bar> \<le> 2 ^ 53 - 1" by (rule int_abs_less_pow)
    then have "\<bar>real_of_int n\<bar> * 2 ^ 971 \<le> (2 ^ 53 - 1) * 2 ^ 971"
      by (simp only: mult_right_mono zero_le_power zero_le_numeral)
    then show ?thesis by (simp add: z_def geq abs_mult)
  qed
  then show ?thesis
    using False by (simp add: round_to_b64_def Let_def z_def g_def n_def)
qed


lemma int_abs_ge_pow:
  fixes n :: int
  assumes "2 ^ 52 - 1 / 2 \<le> \<bar>real_of_int n\<bar>"
  shows "2 ^ 52 \<le> \<bar>real_of_int n\<bar>"
proof -
  have "real_of_int (2 ^ 52 - 1) < real_of_int \<bar>n\<bar>" using assms by simp
  then have "2 ^ 52 - 1 < \<bar>n\<bar>" by (simp only: of_int_less_iff)
  then have "2 ^ 52 \<le> \<bar>n\<bar>" by simp
  then have "real_of_int (2 ^ 52) \<le> real_of_int \<bar>n\<bar>" by (simp only: of_int_le_iff)
  then show ?thesis by simp
qed

lemma round_to_b64_le_max:
  assumes "round_to_b64 x = Finite y"
  shows "\<bar>y\<bar> \<le> 2 ^ 1024 - 2 ^ 971"
proof (cases "x = 0")
  case True
  then show ?thesis using assms by (simp add: round_to_b64_def)
next
  case False
  define g where "g = b64_grid x"
  define n where "n = round_half_even (x / g)"
  have g: "0 < g" by (simp add: g_def b64_grid_pos)
  have y: "y = of_int n * g" and ylt: "\<bar>y\<bar> < 2 ^ 1024"
    using assms False
    by (simp_all add: round_to_b64_def Let_def g_def n_def split: if_splits)
  have close: "\<bar>y - x\<bar> \<le> g / 2"
    unfolding y n_def by (rule grid_round_close [OF g])
  show ?thesis
  proof (cases "\<bar>x\<bar> < 2 ^ 1023")
    case True
    define ax where "ax = \<bar>x\<bar>"
    have ax: "x \<le> ax" "- ax \<le> x" "ax < 2 ^ 1023"
      using True by (simp_all add: ax_def)
    have "g \<le> ax / 2 ^ 52 + 1 / 2 ^ 1074"
      unfolding g_def ax_def by (rule b64_grid_le [OF False])
    moreover have "ax / 2 ^ 52 \<le> ax"
      by (simp add: ax_def field_simps)
    moreover have "1 / 2 ^ 1074 \<le> (1::real)" by simp
    ultimately have gle: "g \<le> ax + 1" by linarith
    have zx: "y - x \<le> g / 2" "- (g / 2) \<le> y - x"
      using close by (simp_all only: abs_le_iff minus_le_iff)
    have "y \<le> 2 ^ 1023 + 2 ^ 1023 / 2 + 1 / 2" "- (2 ^ 1023 + 2 ^ 1023 / 2 + 1 / 2) \<le> y"
      using zx gle ax by linarith+
    then have "- (2 ^ 1024 - 2 ^ 971) \<le> y" "y \<le> 2 ^ 1024 - 2 ^ 971" by simp_all
    then show ?thesis by (simp only: abs_le_iff minus_le_iff)
  next
    case big: False
    define e where "e = \<lfloor>log 2 \<bar>x\<bar>\<rfloor>"
    have lo: "2 powr of_int e \<le> \<bar>x\<bar>"
      unfolding e_def by (rule floor_log2_bounds(1) [OF False])
    have "(2::real) powr 1023 \<le> \<bar>x\<bar>"
      using big by (simp del: power_numeral)
    then have "1023 \<le> log 2 \<bar>x\<bar>"
      using False by (simp add: le_log_iff)
    then have e_ge: "1023 \<le> e" unfolding e_def by linarith
    then have "max e (- 1022) = e" by simp
    then have geq: "g = 2 powr of_int e / 2 ^ 52"
      by (simp add: g_def b64_grid_def e_def powr_diff)
    have "2 ^ 52 \<le> \<bar>x\<bar> / g"
    proof -
      have "2 ^ 52 * g = 2 powr of_int e" by (simp add: geq)
      then have "2 ^ 52 * g \<le> \<bar>x\<bar>" using lo by simp
      then show ?thesis using g by (simp add: le_divide_eq)
    qed
    then have xg: "2 ^ 52 \<le> \<bar>x / g\<bar>" using g by (simp add: abs_divide)
    have "\<bar>x / g\<bar> \<le> \<bar>x / g - of_int n\<bar> + \<bar>real_of_int n\<bar>"
      by (rule abs_le_via)
    moreover have "\<bar>x / g - of_int n\<bar> \<le> 1 / 2"
      using round_half_even_close [of "x / g"] by (simp only: n_def abs_minus_commute)
    ultimately have "2 ^ 52 - 1 / 2 \<le> \<bar>real_of_int n\<bar>" using xg by linarith
    then have "2 ^ 52 \<le> \<bar>real_of_int n\<bar>" by (rule int_abs_ge_pow)
    then have "2 ^ 52 * g \<le> \<bar>real_of_int n\<bar> * g"
      using g by (simp only: mult_right_mono less_imp_le)
    then have "2 powr of_int e \<le> \<bar>y\<bar>"
      using g by (simp add: y abs_mult geq)
    then have "(2::real) powr of_int e < 2 ^ 1024"
      using ylt by linarith
    moreover have P: "(2::real) powr of_int 1024 = 2 ^ 1024" by simp
    ultimately have "(2::real) powr of_int e < 2 powr of_int 1024" by (simp only:)
    moreover have "(1::real) < 2" by simp
    ultimately have "real_of_int e < real_of_int 1024" by (simp only: powr_less_cancel_iff)
    then have "e < 1024" by (simp only: of_int_less_iff)
    then have e_eq: "e = 1023" using e_ge by simp
    have g971: "g = 2 ^ 971" by (simp add: geq e_eq)
    have "\<bar>real_of_int n\<bar> * 2 ^ 971 < 2 ^ 53 * 2 ^ 971"
      using ylt by (simp add: y abs_mult g971)
    then have "\<bar>real_of_int n\<bar> < 2 ^ 53"
      by (simp only: mult_less_cancel_right_pos zero_less_power zero_less_numeral)
    then have "\<bar>real_of_int n\<bar> \<le> 2 ^ 53 - 1" by (rule int_abs_less_pow)
    then have "\<bar>real_of_int n\<bar> * 2 ^ 971 \<le> (2 ^ 53 - 1) * 2 ^ 971"
      by (simp only: mult_right_mono zero_le_power zero_le_numeral)
    then show ?thesis by (simp add: y g971 abs_mult)
  qed
qed

lemma round_half_even_of_int: "round_half_even (of_int n) = n"
  by (simp add: round_half_even_def)

lemma round_to_b64_exact:
  assumes "2 powr of_int e \<le> \<bar>x\<bar>" and "\<bar>x\<bar> < 2 powr (of_int e + 1)"
    and "x / 2 powr (of_int (max e (- 1022)) - 52) = of_int n"
    and "\<bar>x\<bar> < 2 ^ 1024"
  shows "round_to_b64 x = Finite x"
proof -
  have "0 < (2::real) powr of_int e" by simp
  then have nz: "x \<noteq> 0" using assms(1) by auto
  have g: "b64_grid x = 2 powr (of_int (max e (- 1022)) - 52)"
    by (rule b64_grid_eq [OF assms(1,2)])
  have "x / b64_grid x = of_int n" using g assms(3) by simp
  moreover from this have "round_half_even (x / b64_grid x) = n"
    by (simp only: round_half_even_of_int)
  ultimately have "of_int (round_half_even (x / b64_grid x)) * b64_grid x = x"
    using b64_grid_pos [of x] by (simp add: field_simps)
  then show ?thesis
    using nz assms(4) by (simp add: round_to_b64_def Let_def)
qed

lemma round_to_b64_half: "round_to_b64 (1 / 2) = Finite (1 / 2)"
  using round_to_b64_exact [of "- 1" "1 / 2" "2 ^ 52"]
  by (simp add: powr_neg_numeral powr_minus)

lemma round_to_b64_overflow: "round_to_b64 (2 ^ 1024) = PosInf"
proof -
  have "b64_grid (2 ^ 1024) = 2 powr (of_int (max 1024 (- 1022)) - 52)"
    by (rule b64_grid_eq) simp_all
  then have g: "b64_grid (2 ^ 1024) = 2 ^ 972" by simp
  have "(2::real) ^ 1024 / 2 ^ 972 = of_int (2 ^ 52)" by simp
  then have "round_half_even (2 ^ 1024 / 2 ^ 972) = 2 ^ 52"
    by (simp only: round_half_even_def Let_def floor_of_int) simp
  then show ?thesis
    unfolding round_to_b64_def Let_def g by simp
qed

lemma abs_boundI:
  fixes z :: real
  assumes "- b \<le> z" and "z \<le> b"
  shows "\<bar>z\<bar> \<le> b"
  using assms by (simp add: abs_le_iff)

lemma abs_boundD:
  fixes z :: real
  assumes "\<bar>z - x\<bar> \<le> b"
  shows "x - b \<le> z" and "z \<le> x + b"
  using assms by (simp_all add: abs_le_iff)

lemma round_to_b64_finite_small:
  assumes "\<bar>x\<bar> \<le> 300"
  shows "\<exists>y. round_to_b64 x = Finite y"
proof -
  have "(300::real) < 2 ^ 1024 - 2 ^ 970" by simp
  then have "\<bar>x\<bar> < 2 ^ 1024 - 2 ^ 970" using assms by (rule le_less_trans [rotated])
  then show ?thesis by (rule round_to_b64_finite)
qed

lemma b64_below_100:
  assumes "round_to_b64 D = Finite D" and "64 \<le> D" and "D < 100"
  shows "D \<le> 100 - 1 / 2 ^ 46"
proof -
  have "b64_grid D = 2 powr (of_int (max 6 (- 1022)) - 52)"
    by (rule b64_grid_eq) (use assms in simp_all)
  then have g: "b64_grid D = 1 / 2 ^ 46" by (simp add: powr_neg_numeral)
  define n where "n = round_half_even (D / b64_grid D)"
  have "of_int n * b64_grid D = D"
    using assms(1,2) by (simp add: round_to_b64_def Let_def n_def split: if_splits)
  then have Dn: "D = of_int n / 2 ^ 46" by (simp add: g)
  then have "real_of_int n = D * 2 ^ 46" by simp
  then have "real_of_int n < 100 * 2 ^ 46" using assms(3) by simp
  then have "real_of_int n < real_of_int (100 * 2 ^ 46)" by simp
  then have "n < 100 * 2 ^ 46" by (simp only: of_int_less_iff)
  then have "n \<le> 100 * 2 ^ 46 - 1" by simp
  then have "real_of_int n \<le> real_of_int (100 * 2 ^ 46 - 1)" by (simp only: of_int_le_iff)
  then have "real_of_int n \<le> 100 * 2 ^ 46 - 1" by simp
  then have "real_of_int n / 2 ^ 46 \<le> (100 * 2 ^ 46 - 1) / 2 ^ 46"
    by (simp only: divide_right_mono zero_le_power zero_le_numeral)
  then show ?thesis by (simp add: Dn)
qed

lemma target_fraction_below_one:
  assumes "round_to_b64 D = Finite D" and "0 \<le> D" and "D < 100"
    and "round_to_b64 (D / 100) = Finite a"
  shows "a \<le> 1 - 1 / 2 ^ 53"
proof (cases "D < 64")
  case True
  have "\<bar>D / 100\<bar> \<le> 64 / 100"
    using assms(2) True by (intro abs_boundI) simp_all
  then have "a \<le> D / 100 + ((64 / 100) / 2 ^ 53 + 1 / 2 ^ 1075)"
    by (rule round_to_b64_bounds(2) [OF assms(4)])
  then show ?thesis using True by simp
next
  case False
  then have "D \<le> 100 - 1 / 2 ^ 46"
    using assms by (intro b64_below_100) simp_all
  then have x_hi: "D / 100 \<le> 1 - 1 / (100 * 2 ^ 46)" by simp
  have x_lo: "64 / 100 \<le> D / 100" using False by simp
  have "b64_grid (D / 100) = 2 powr (of_int (max (- 1) (- 1022)) - 52)"
    by (rule b64_grid_eq) (use x_lo x_hi assms(2,3) in \<open>simp_all add: powr_minus\<close>)
  then have g: "b64_grid (D / 100) = 1 / 2 ^ 53" by (simp add: powr_neg_numeral)
  define n where "n = round_half_even ((D / 100) / b64_grid (D / 100))"
  have xnz: "D / 100 \<noteq> 0" using x_lo by auto
  have an: "a = of_int n * b64_grid (D / 100)"
    using assms(4) xnz unfolding round_to_b64_def Let_def n_def
    by (simp split: if_splits)
  have "\<bar>real_of_int n - (D / 100) / b64_grid (D / 100)\<bar> \<le> 1 / 2"
    unfolding n_def by (rule round_half_even_close)
  then have "real_of_int n \<le> (D / 100) / b64_grid (D / 100) + 1 / 2"
    by (rule abs_boundD(2))
  then have "real_of_int n \<le> (D / 100) * 2 ^ 53 + 1 / 2" by (simp add: g)
  moreover have "(D / 100) * 2 ^ 53 \<le> (1 - 1 / (100 * 2 ^ 46)) * 2 ^ 53"
    using x_hi by (simp only: mult_right_mono zero_le_power zero_le_numeral)
  moreover have "(1 - 1 / (100 * 2 ^ 46)) * 2 ^ 53 + 1 / 2 < (2::real) ^ 53" by simp
  ultimately have "real_of_int n < 2 ^ 53" by linarith
  then have "real_of_int n < real_of_int (2 ^ 53)" by simp
  then have "n < 2 ^ 53" by (simp only: of_int_less_iff)
  then have "n \<le> 2 ^ 53 - 1" by simp
  then have "real_of_int n \<le> real_of_int (2 ^ 53 - 1)" by (simp only: of_int_le_iff)
  then have "real_of_int n \<le> 2 ^ 53 - 1" by simp
  then have "real_of_int n / 2 ^ 53 \<le> (2 ^ 53 - 1) / 2 ^ 53"
    by (simp only: divide_right_mono zero_le_power zero_le_numeral)
  then show ?thesis by (simp add: an g)
qed

lemma quotient_swap_upper:
  fixes p c m k :: real
  assumes "0 < c" and "0 < m" and "0 < k" and "m \<le> p / c + (p / c) / k"
  shows "c \<le> p / m + (p / m) / k"
proof -
  have "m * c \<le> (p / c + (p / c) / k) * c"
    using assms(1,4) by (simp only: mult_right_mono less_imp_le)
  also have "(p / c + (p / c) / k) * c = p + p / k"
    using assms(1) by (simp add: field_simps)
  finally have "(m * c) / m \<le> (p + p / k) / m"
    using assms(2) by (simp only: divide_right_mono less_imp_le)
  then show ?thesis using assms(2) by (simp add: add_divide_distrib mult.commute)
qed

lemma quotient_swap_lower:
  fixes p c m k :: real
  assumes "0 < c" and "0 < m" and "0 < k" and "p / c - (p / c) / k \<le> m"
  shows "p / m - (p / m) / k \<le> c"
proof -
  have "(p / c - (p / c) / k) * c \<le> m * c"
    using assms(1,4) by (simp only: mult_right_mono less_imp_le)
  moreover have "(p / c - (p / c) / k) * c = p - p / k"
    using assms(1) by (simp add: field_simps)
  ultimately have "p - p / k \<le> m * c" by simp
  then have "(p - p / k) / m \<le> (m * c) / m"
    using assms(2) by (simp only: divide_right_mono less_imp_le)
  then show ?thesis using assms(2) by (simp add: diff_divide_distrib mult.commute)
qed


lemma divide_shift_upper:
  fixes t x m k :: real
  assumes "0 < m" and "t \<le> x + m / k"
  shows "t / m \<le> x / m + 1 / k"
proof -
  have "t / m \<le> (x + m / k) / m"
    using assms by (simp only: divide_right_mono less_imp_le)
  then show ?thesis using assms(1) by (simp add: add_divide_distrib)
qed

lemma divide_shift_lower:
  fixes t x m k :: real
  assumes "0 < m" and "x - m / k \<le> t"
  shows "x / m - 1 / k \<le> t / m"
proof -
  have "(x - m / k) / m \<le> t / m"
    using assms by (simp only: divide_right_mono less_imp_le)
  then show ?thesis using assms(1) by (simp add: diff_divide_distrib)
qed

lemma round_to_b64_quarter: "round_to_b64 (1 / 4) = Finite (1 / 4)"
  using round_to_b64_exact [of "- 2" "1 / 4" "2 ^ 52"]
  by (simp add: powr_neg_numeral)

lemma round_to_b64_three_quarters: "round_to_b64 (3 / 4) = Finite (3 / 4)"
  using round_to_b64_exact [of "- 1" "3 / 4" "3 * 2 ^ 51"]
  by (simp add: powr_neg_numeral powr_minus)

lemma round_to_b64_25: "round_to_b64 25 = Finite 25"
  using round_to_b64_exact [of 4 25 "25 * 2 ^ 48"]
  by (simp add: powr_neg_numeral)

lemma round_to_b64_100: "round_to_b64 100 = Finite 100"
  using round_to_b64_exact [of 6 100 "25 * 2 ^ 48"]
  by (simp add: powr_neg_numeral)

lemma round_to_b64_subnormal:
  "round_to_b64 ((1 / 2 ^ 1074) / (3 / 4)) = Finite (1 / 2 ^ 1074)"
proof -
  define x :: real where "x = (1 / 2 ^ 1074) / (3 / 4)"
  have "b64_grid x = 2 powr (of_int (max (- 1074) (- 1022)) - 52)"
    by (rule b64_grid_eq) (simp_all add: x_def powr_neg_numeral)
  then have g: "b64_grid x = 1 / 2 ^ 1074" by (simp add: powr_neg_numeral)
  have "x / (1 / 2 ^ 1074) = 4 / 3" by (simp add: x_def)
  moreover have "round_half_even (4 / 3) = 1" by (simp add: round_half_even_def)
  ultimately have "round_half_even (x / b64_grid x) = 1" by (simp only: g)
  moreover have "x \<noteq> 0" by (simp add: x_def)
  ultimately have "round_to_b64 x = Finite (1 / 2 ^ 1074)"
    by (simp add: round_to_b64_def Let_def g)
  then show ?thesis by (simp only: x_def)
qed

subsection \<open>C6: the round trip of a target percentage\<close>

text \<open>
  C6, as stated, fails: Python's floats are binary64, and at the two ends of their range
  the round trip loses the target. At price \<open>2^1023\<close> and \<open>D = 50\<close> the quotient
  \<open>price / (1 - 50 / 100)\<close> is \<open>2^1024\<close>, which overflows: the new compare price is
  infinite, and \<open>calculate_discount_percentage\<close> computes \<open>(inf - price) / inf\<close>, which is
  NaN. At price \<open>2^-1074\<close>, the smallest float above 0, and \<open>D = 25\<close> the quotient
  rounds back to the price itself: the compare price is not above the price, and the
  recovered percentage is 0.
\<close>

theorem set_discount_round_trip_b64_counterexample:
  "calculate_new_prices_b64 (Finite (2 ^ 1023)) None SET_DISCOUNT_PERCENTAGE (Finite 0)
       (Some (Finite 50)) = Inr (Finite (2 ^ 1023), Some PosInf)
   \<and> calculate_discount_percentage_b64 (Finite (2 ^ 1023)) PosInf = Inr NaN
   \<and> calculate_new_prices_b64 (Finite (1 / 2 ^ 1074)) None SET_DISCOUNT_PERCENTAGE (Finite 0)
       (Some (Finite 25)) = Inr (Finite (1 / 2 ^ 1074), Some (Finite (1 / 2 ^ 1074)))
   \<and> calculate_discount_percentage_b64 (Finite (1 / 2 ^ 1074)) (Finite (1 / 2 ^ 1074))
       = Inr (Finite 0)
   \<and> \<not> \<bar>0 - 25\<bar> \<le> (1 / 10 ^ 6 :: real)"
proof -
  have c: "b64_sub (Finite 1) (Finite (1 / 2)) = Finite (1 / 2)"
    using round_to_b64_half by (simp add: b64_sub_def)
  have nc: "py_truediv (Finite (2 ^ 1023)) (Finite (1 / 2)) = Inr PosInf"
    using round_to_b64_overflow by (simp add: py_truediv_def)
  have 1: "calculate_new_prices_b64 (Finite (2 ^ 1023)) None SET_DISCOUNT_PERCENTAGE (Finite 0)
       (Some (Finite 50)) = Inr (Finite (2 ^ 1023), Some PosInf)"
    using nc by (simp add: round_to_b64_half c)
  have 2: "calculate_discount_percentage_b64 (Finite (2 ^ 1023)) PosInf = Inr NaN"
    by (simp add: calculate_discount_percentage_b64_def b64_sub_def py_truediv_def)
  have c': "b64_sub (Finite 1) (Finite (1 / 4)) = Finite (3 / 4)"
    using round_to_b64_three_quarters by (simp add: b64_sub_def)
  have nc': "py_truediv (Finite (1 / 2 ^ 1074)) (Finite (3 / 4)) = Inr (Finite (1 / 2 ^ 1074))"
    using round_to_b64_subnormal by (simp add: py_truediv_def)
  have 3: "calculate_new_prices_b64 (Finite (1 / 2 ^ 1074)) None SET_DISCOUNT_PERCENTAGE
       (Finite 0) (Some (Finite 25)) = Inr (Finite (1 / 2 ^ 1074), Some (Finite (1 / 2 ^ 1074)))"
    using nc' by (simp add: round_to_b64_quarter c')
  have 4: "calculate_discount_percentage_b64 (Finite (1 / 2 ^ 1074)) (Finite (1 / 2 ^ 1074))
       = Inr (Finite 0)"
    by (simp add: calculate_discount_percentage_b64_def)
  have 5: "\<not> \<bar>0 - 25\<bar> \<le> (1 / 10 ^ 6 :: real)" by simp
  show ?thesis using 1 2 3 4 5 by (intro conjI)
qed

text \<open>
  C6, amended: for every current price that is at least \<open>2^-1022\<close> (the smallest normal
  binary64 number) and every binary64 number \<open>D\<close> with \<open>0 \<le> D < 100\<close>, if the new
  compare price that \<open>calculate_new_prices\<close> computes under \<open>SET_DISCOUNT_PERCENTAGE\<close>
  with target \<open>D\<close> does not overflow to infinity, then \<open>calculate_new_prices\<close> returns
  the price unchanged with a finite new compare price, and
  \<open>calculate_discount_percentage\<close> of the two returns a value within \<open>1e-6\<close> of \<open>D\<close>,
  in binary64 arithmetic.
\<close>

theorem set_discount_round_trip_b64:
  assumes price: "1 / 2 ^ 1022 \<le> p"
    and D0: "0 \<le> D" and D100: "D < 100" and Drep: "round_to_b64 D = Finite D"
    and fin: "calculate_new_prices_b64 (Finite p) cmp SET_DISCOUNT_PERCENTAGE v (Some (Finite D))
                \<noteq> Inr (Finite p, Some PosInf)"
  shows "\<exists>nc d.
           calculate_new_prices_b64 (Finite p) cmp SET_DISCOUNT_PERCENTAGE v (Some (Finite D))
             = Inr (Finite p, Some (Finite nc))
           \<and> calculate_discount_percentage_b64 (Finite p) (Finite nc) = Inr (Finite d)
           \<and> \<bar>d - D\<bar> \<le> 1 / 10 ^ 6"
proof -
  have "(0::real) < 1 / 2 ^ 1022" by simp
  then have ppos: "0 < p" using price by simp
  have x1: "0 \<le> D / 100" "D / 100 < 1" using D0 D100 by simp_all
  have ax1: "\<bar>D / 100\<bar> \<le> 1" using x1 by (intro abs_boundI) simp_all
  then have "\<bar>D / 100\<bar> \<le> 300" by simp
  then obtain a where a: "round_to_b64 (D / 100) = Finite a"
    using round_to_b64_finite_small by blast
  have a_lo: "D / 100 - (1 / 2 ^ 53 + 1 / 2 ^ 1075) \<le> a"
    and a_hi: "a \<le> D / 100 + (1 / 2 ^ 53 + 1 / 2 ^ 1075)"
    using round_to_b64_bounds [OF a ax1] by simp_all
  have a1: "a \<le> 1 - 1 / 2 ^ 53"
    by (rule target_fraction_below_one [OF Drep D0 D100 a])
  define x2 where "x2 = 1 - a"
  have x2a: "a = 1 - x2" by (simp add: x2_def)
  have x2_lo: "1 / 2 ^ 53 \<le> x2" using a1 by (simp add: x2_def)
  have x2_hi: "x2 \<le> 2" unfolding x2_def using a_lo x1 by simp
  have x2_pos: "0 < x2" using x2_lo by (rule less_le_trans [rotated]) simp
  have ax2: "\<bar>x2\<bar> = x2" using x2_pos by simp
  have "\<bar>x2\<bar> \<le> 300" using x2_hi ax2 by simp
  then obtain c where c: "round_to_b64 x2 = Finite c"
    using round_to_b64_finite_small by blast
  have "1 / 2 ^ 1022 \<le> x2" using x2_lo by (rule order_trans [rotated]) simp
  then have "1 / 2 ^ 1022 \<le> \<bar>x2\<bar>" by (simp only: ax2)
  then have "\<bar>c - x2\<bar> \<le> \<bar>x2\<bar> / 2 ^ 53"
    by (rule round_to_b64_error_normal [OF c])
  then have "\<bar>c - x2\<bar> \<le> x2 / 2 ^ 53" by (simp only: ax2)
  then have c_lo: "x2 - x2 / 2 ^ 53 \<le> c" and c_hi: "c \<le> x2 + x2 / 2 ^ 53"
    by (rule abs_boundD)+
  have cpos: "0 < c" using c_lo x2_pos by simp
  have c3: "c \<le> 3" using c_hi x2_hi by simp
  define x3 where "x3 = p / c"
  have x3pos: "0 < x3" using ppos cpos by (simp add: x3_def)
  have x3_lo: "p / 3 \<le> x3"
    unfolding x3_def using c3 ppos cpos by (intro divide_left_mono) simp_all
  have cnp: "calculate_new_prices_b64 (Finite p) cmp SET_DISCOUNT_PERCENTAGE v (Some (Finite D))
               = Inr (Finite p, Some (round_to_b64 x3))"
    using cpos by (simp add: a c [unfolded x2_def] b64_sub_def py_truediv_def x3_def)
  then have "round_to_b64 x3 \<noteq> PosInf" using fin by simp
  then obtain nc where nc: "round_to_b64 x3 = Finite nc"
    using round_to_b64_pos_cases [OF x3pos] by blast
  have cnp': "calculate_new_prices_b64 (Finite p) cmp SET_DISCOUNT_PERCENTAGE v (Some (Finite D))
                = Inr (Finite p, Some (Finite nc))"
    using cnp nc by simp
  have "\<bar>x3\<bar> \<le> x3" using x3pos by simp
  then have nc_lo': "x3 - (x3 / 2 ^ 53 + 1 / 2 ^ 1075) \<le> nc"
    and nc_hi': "nc \<le> x3 + (x3 / 2 ^ 53 + 1 / 2 ^ 1075)"
    by (rule round_to_b64_bounds [OF nc])+
  have eta: "1 / 2 ^ 1075 \<le> x3 / 2 ^ 51" using x3_lo price by simp
  have nc_lo: "x3 - x3 / 2 ^ 50 \<le> nc" using nc_lo' eta x3pos by simp
  have nc_hi: "nc \<le> x3 + x3 / 2 ^ 50" using nc_hi' eta x3pos by simp
  have ncpos: "0 < nc" using nc_lo x3pos by simp
  define w where "w = p / nc"
  have wpos: "0 < w" using ppos ncpos by (simp add: w_def)
  have w_hi: "c \<le> w + w / 2 ^ 50"
    unfolding w_def using cpos ncpos _ nc_hi [unfolded x3_def]
    by (rule quotient_swap_upper) simp
  have w_lo: "w - w / 2 ^ 50 \<le> c"
    unfolding w_def using cpos ncpos _ nc_lo [unfolded x3_def]
    by (rule quotient_swap_lower) simp
  have w6: "w \<le> 6" using w_lo c3 wpos by simp
  show ?thesis
  proof (cases "nc \<le> p")
    case True
    have cd: "calculate_discount_percentage_b64 (Finite p) (Finite nc) = Inr (Finite 0)"
      using True by (simp add: calculate_discount_percentage_b64_def)
    have "1 \<le> w" using True ncpos by (simp add: w_def)
    then have "D \<le> 1 / 10 ^ 6"
      using w_lo c_hi x2_hi a_lo x2a by simp
    then have "\<bar>0 - D\<bar> \<le> 1 / 10 ^ 6" using D0 by simp
    then show ?thesis using cnp' cd by blast
  next
    case False
    then have plt: "p < nc" by simp
    define x4 where "x4 = nc - p"
    have x4: "0 < x4" "x4 \<le> nc" using plt ppos by (simp_all add: x4_def)
    have "\<bar>nc\<bar> \<le> 2 ^ 1024 - 2 ^ 971" by (rule round_to_b64_le_max [OF nc])
    then have "nc \<le> 2 ^ 1024 - 2 ^ 971" using ncpos by simp
    then have "x4 < 2 ^ 1024 - 2 ^ 970" using x4(2) by simp
    then have "\<bar>x4\<bar> < 2 ^ 1024 - 2 ^ 970" using x4(1) by simp
    then obtain t where t: "round_to_b64 x4 = Finite t"
      using round_to_b64_finite by blast
    have "\<bar>x4\<bar> \<le> nc" using x4 by simp
    then have t_lo': "x4 - (nc / 2 ^ 53 + 1 / 2 ^ 1075) \<le> t"
      and t_hi': "t \<le> x4 + (nc / 2 ^ 53 + 1 / 2 ^ 1075)"
      by (rule round_to_b64_bounds [OF t])+
    have eta2: "1 / 2 ^ 1075 \<le> nc / 2 ^ 53" using plt price by simp
    have t_lo: "x4 - nc / 2 ^ 52 \<le> t" using t_lo' eta2 by simp
    have t_hi: "t \<le> x4 + nc / 2 ^ 52" using t_hi' eta2 by simp
    define x5 where "x5 = t / nc"
    have s: "x4 / nc = 1 - w"
      using ncpos by (simp add: x4_def w_def diff_divide_distrib)
    have x5_lo: "1 - w - 1 / 2 ^ 52 \<le> x5"
      using divide_shift_lower [OF ncpos t_lo] by (simp only: s x5_def)
    have x5_hi: "x5 \<le> 1 - w + 1 / 2 ^ 52"
      using divide_shift_upper [OF ncpos t_hi] by (simp only: s x5_def)
    have wlt: "w < 1" using plt ncpos by (simp add: w_def)
    have ax5: "\<bar>x5\<bar> \<le> 2" using x5_lo x5_hi wpos wlt by (intro abs_boundI) simp_all
    then have "\<bar>x5\<bar> \<le> 300" by simp
    then obtain q where q: "round_to_b64 x5 = Finite q"
      using round_to_b64_finite_small by blast
    have q_lo: "x5 - (2 / 2 ^ 53 + 1 / 2 ^ 1075) \<le> q"
      and q_hi: "q \<le> x5 + (2 / 2 ^ 53 + 1 / 2 ^ 1075)"
      by (rule round_to_b64_bounds [OF q ax5])+
    have ax6: "\<bar>q * 100\<bar> \<le> 300" using q_lo q_hi x5_lo x5_hi wpos wlt
      by (intro abs_boundI) simp_all
    then obtain d where d: "round_to_b64 (q * 100) = Finite d"
      using round_to_b64_finite_small by blast
    have d_lo: "q * 100 - (300 / 2 ^ 53 + 1 / 2 ^ 1075) \<le> d"
      and d_hi: "d \<le> q * 100 + (300 / 2 ^ 53 + 1 / 2 ^ 1075)"
      by (rule round_to_b64_bounds [OF d ax6])+
    have cd: "calculate_discount_percentage_b64 (Finite p) (Finite nc) = Inr (Finite d)"
      using False ncpos
      by (simp add: calculate_discount_percentage_b64_def b64_sub_def py_truediv_def
          t [unfolded x4_def] q [unfolded x5_def] d)
    have "d - D \<le> 1 / 10 ^ 6"
      using d_hi q_hi x5_hi w_hi w6 c_lo x2_hi a_hi x2a by simp
    moreover have "- (1 / 10 ^ 6) \<le> d - D"
      using d_lo q_lo x5_lo w_lo w6 c_hi x2_hi a_lo x2a by simp
    ultimately have "\<bar>d - D\<bar> \<le> 1 / 10 ^ 6" by (rule abs_boundI [rotated])
    then show ?thesis using cnp' cd by blast
  qed
qed

theorem set_discount_round_trip_b64_witness:
  "1 / 2 ^ 1022 \<le> (75::real) \<and> (0::real) \<le> 25 \<and> (25::real) < 100
   \<and> round_to_b64 25 = Finite 25
   \<and> calculate_new_prices_b64 (Finite 75) None SET_DISCOUNT_PERCENTAGE (Finite 0)
        (Some (Finite 25)) \<noteq> Inr (Finite 75, Some PosInf)
   \<and> (\<exists>nc d.
         calculate_new_prices_b64 (Finite 75) None SET_DISCOUNT_PERCENTAGE (Finite 0)
           (Some (Finite 25)) = Inr (Finite 75, Some (Finite nc))
         \<and> calculate_discount_percentage_b64 (Finite 75) (Finite nc) = Inr (Finite d)
         \<and> \<bar>d - 25\<bar> \<le> 1 / 10 ^ 6)"
proof -
  have c: "b64_sub (Finite 1) (Finite (1 / 4)) = Finite (3 / 4)"
    using round_to_b64_three_quarters by (simp add: b64_sub_def)
  have nc: "py_truediv (Finite 75) (Finite (3 / 4)) = Inr (Finite 100)"
    using round_to_b64_100 by (simp add: py_truediv_def)
  have e: "calculate_new_prices_b64 (Finite 75) None SET_DISCOUNT_PERCENTAGE (Finite 0)
        (Some (Finite 25)) = Inr (Finite 75, Some (Finite 100))"
    using nc by (simp add: round_to_b64_quarter c)
  have h1: "1 / 2 ^ 1022 \<le> (75::real)" by simp
  have h5: "calculate_new_prices_b64 (Finite 75) None SET_DISCOUNT_PERCENTAGE (Finite 0)
        (Some (Finite 25)) \<noteq> Inr (Finite 75, Some PosInf)"
    by (simp only: e) simp
  show ?thesis
    using set_discount_round_trip_b64 [of 75 25 None "Finite 0", OF h1 _ _ round_to_b64_25 h5]
      h1 round_to_b64_25 h5
    by simp
qed

subsection \<open>C8: what the preview rounds\<close>

text \<open>
  C8, as stated, fails: the preview rounds the values it computes, and echoes the current
  price and the current compare price back as they came. At current price 10.005 the
  \<open>current_price\<close> of the result is 10.005, which has three decimals.
\<close>

theorem preview_echoes_unrounded_counterexample:
  "preview_discount_change (2001 / 200) None INCREASE_COMPARE_ONLY 10 None =
     Inr \<lparr> pv_current_price = 2001 / 200, pv_current_compare_at_price = None,
           pv_current_discount_percentage = 0, pv_new_price = 10,
           pv_new_compare_at_price = Some (1101 / 100), pv_new_discount_percentage = 909 / 100,
           pv_discount_change = 909 / 100,
           pv_strategy_description = desc_increase_compare_only \<rparr>
   \<and> \<not> two_decimals (2001 / 200)"
  by (simp add: preview_discount_change_def guarded_discount_def calculate_discount_percentage_def
      py_div_def py_round2_def round_half_even_def two_decimals_def)

text \<open>
  C8, amended: whenever \<open>preview_discount_change\<close> returns, its result holds the new
  price, the new compare price (left out when it is 0), the current and the new discount
  percentage and the change of the discount, each rounded to two decimal places, and the
  fixed description of the chosen strategy; the current price and the current compare price
  are echoed back unchanged, not rounded.
\<close>

theorem preview_rounds_computed_values:
  assumes "preview_discount_change p c s v t = Inr r"
  shows "\<exists>np nc cd nd.
      calculate_new_prices p c s v t = Inr (np, Some nc)
    \<and> guarded_discount p c = Inr cd
    \<and> guarded_discount np (Some nc) = Inr nd
    \<and> is_rounding_of (pv_new_price r) np
    \<and> pv_new_compare_at_price r = (if nc = 0 then None else Some (py_round2 nc))
    \<and> is_rounding_of (py_round2 nc) nc
    \<and> is_rounding_of (pv_current_discount_percentage r) cd
    \<and> is_rounding_of (pv_new_discount_percentage r) nd
    \<and> is_rounding_of (pv_discount_change r) (nd - cd)
    \<and> pv_strategy_description r = get_strategy_description s
    \<and> pv_current_price r = p
    \<and> pv_current_compare_at_price r = c"
proof -
  from assms obtain cd where cd: "guarded_discount p c = Inr cd"
    by (auto simp: preview_discount_change_def split: sum.splits)
  from assms cd obtain np nc0 where np: "calculate_new_prices p c s v t = Inr (np, nc0)"
    by (auto simp: preview_discount_change_def split: sum.splits)
  then obtain nc where nc: "nc0 = Some nc" using calculate_new_prices_Some by blast
  from assms cd np obtain nd where nd: "guarded_discount np nc0 = Inr nd"
    by (auto simp: preview_discount_change_def split: sum.splits)
  from assms have r: "r = \<lparr> pv_current_price = p, pv_current_compare_at_price = c,
           pv_current_discount_percentage = py_round2 cd, pv_new_price = py_round2 np,
           pv_new_compare_at_price = (if nc = 0 then None else Some (py_round2 nc)),
           pv_new_discount_percentage = py_round2 nd,
           pv_discount_change = py_round2 (nd - cd),
           pv_strategy_description = get_strategy_description s \<rparr>"
    using nd by (auto simp: preview_discount_change_def cd np nc)
  show ?thesis
    using cd np nd unfolding nc
    by (simp add: r py_round2_is_rounding)
qed

theorem preview_rounds_computed_values_witness:
  "is_rounding_of 138 (138 :: real) \<and>
   preview_discount_change 100 (Some 120) INCREASE_COMPARE_ONLY 15 None =
     Inr \<lparr> pv_current_price = 100, pv_current_compare_at_price = Some 120,
           pv_current_discount_percentage = 1667 / 100, pv_new_price = 100,
           pv_new_compare_at_price = Some 138, pv_new_discount_percentage = 2754 / 100,
           pv_discount_change = 1087 / 100,
           pv_strategy_description = desc_increase_compare_only \<rparr>"
proof -
  have e: "preview_discount_change 100 (Some 120) INCREASE_COMPARE_ONLY 15 None =
     Inr \<lparr> pv_current_price = 100, pv_current_compare_at_price = Some 120,
           pv_current_discount_percentage = 1667 / 100, pv_new_price = 100,
           pv_new_compare_at_price = Some 138, pv_new_discount_percentage = 2754 / 100,
           pv_discount_change = 1087 / 100,
           pv_strategy_description = desc_increase_compare_only \<rparr>"
    by (simp add: preview_discount_change_def guarded_discount_def
        calculate_discount_percentage_def py_div_def py_round2_def round_half_even_def)
  from preview_rounds_computed_values [OF e] show ?thesis
    using e by (simp add: is_rounding_of_def two_decimals_def)
qed

subsection \<open>C10: the new compare price is always present\<close>

text \<open>
  C10: whenever \<open>calculate_new_prices\<close> returns, for any strategy, its new compare price
  is present (not \<open>None\<close>). So the request that the batch updater builds from the result
  lacks the \<open>compare_at_price\<close> field exactly when the computed compare price is 0, never
  because no compare price was computed.
\<close>

theorem new_compare_price_present:
  assumes "calculate_new_prices p c s v t = Inr (np, nc)"
  shows "\<exists>x. nc = Some x \<and>
           (pl_compare_at_price (build_payload vid (fst (price_arguments np nc))
                                   (snd (price_arguments np nc))) = None
              \<longleftrightarrow> x = 0)"
proof -
  from assms obtain x where x: "nc = Some x" using calculate_new_prices_Some by blast
  show ?thesis
    by (simp add: x build_payload_def price_arguments_def format_2f_nonempty)
qed

theorem new_compare_price_present_witness:
  "calculate_new_prices 100 None INCREASE_COMPARE_ONLY (- 100) None = Inr (100, Some 0) \<and>
   pl_compare_at_price (build_payload 7 (fst (price_arguments 100 (Some 0)))
                          (snd (price_arguments 100 (Some 0)))) = None"
  using new_compare_price_present [of 100 None INCREASE_COMPARE_ONLY "- 100" None 100 "Some 0" 7]
  by simp

section \<open>Properties of the batch job\<close>

subsection \<open>Auxiliary facts\<close>

text \<open>
  \<open>update_single_variant_discount\<close> never raises, so the loop body takes its normal
  path whenever the batch has at least one unit; the two loops are one pass over the units;
  and the final state of a job is determined by the units and by what each of them returns.
\<close>

lemma update_single_variant_discount_returns:
  "\<exists>b. fst (update_single_variant_discount env p v s val t sid) = Inr b"
  by (auto simp: update_single_variant_discount_def split: prod.splits sum.splits)

lemma update_single_variant_discount_eq:
  "update_single_variant_discount env p v s val t sid =
     (Inr (unit_succeeds env s val t sid (p, v)), unit_requests env s val t sid (p, v),
      unit_rows env s val t sid (p, v))"
  using update_single_variant_discount_returns [of env p v s val t sid]
  by (auto simp: unit_succeeds_def unit_requests_def unit_rows_def prod_eq_iff)

lemma process_variant_eq:
  assumes "0 < tot"
  shows "process_variant env s val t sid tot p v st =
     update_entry (\<lambda>e. e\<lparr> jp_current := js_current st + 1,
                           jp_successful := Some (js_successful_updates st
                              + (if unit_succeeds env s val t sid (p, v) then 1 else 0)),
                           jp_percentage := py_int (real (js_current st + 1) / real tot * 100),
                           jp_current_item := Some (item_label p v) \<rparr>)
       (st\<lparr> js_sent := js_sent st @ unit_requests env s val t sid (p, v),
            js_logged := js_logged st @ unit_rows env s val t sid (p, v),
            js_current := js_current st + 1,
            js_successful_updates := js_successful_updates st
               + (if unit_succeeds env s val t sid (p, v) then 1 else 0) \<rparr>)"
  using assms
  by (simp add: process_variant_def update_single_variant_discount_eq py_div_def Let_def
      item_label_def)

lemma run_units_Nil [simp]: "run_units env s val t sid tot [] st = st"
  by (simp add: run_units_def)

lemma run_units_snoc [simp]:
  "run_units env s val t sid tot (us @ [u]) st =
     process_variant env s val t sid tot (fst u) (snd u) (run_units env s val t sid tot us st)"
  by (simp add: run_units_def)

lemma process_variants_run_units:
  "process_variants env s val t sid tot p vs st =
     run_units env s val t sid tot (map (Pair p) vs) st"
  by (induction vs arbitrary: st) (simp_all add: run_units_def)

lemma process_products_run_units:
  "process_products env s val t sid tot ps st = run_units env s val t sid tot (units_of ps) st"
  by (induction ps arbitrary: st)
     (simp_all add: units_of_def process_variants_run_units run_units_def)

lemma length_units_of:
  "length (units_of ps) = sum_list (map (\<lambda>p. length (p_variants p)) ps)"
  by (induction ps) (simp_all add: units_of_def)


lemma run_units_current:
  "0 < tot \<Longrightarrow> js_current (run_units env s val t sid tot us st) = js_current st + length us"
  by (induction us rule: rev_induct) (simp_all add: process_variant_eq update_entry_def)

lemma run_units_successful:
  "0 < tot \<Longrightarrow> js_successful_updates (run_units env s val t sid tot us st) =
     js_successful_updates st + length (filter (unit_succeeds env s val t sid) us)"
  by (induction us rule: rev_induct) (simp_all add: process_variant_eq update_entry_def)

lemma run_units_sent:
  "0 < tot \<Longrightarrow> js_sent (run_units env s val t sid tot us st) =
     js_sent st @ concat (map (unit_requests env s val t sid) us)"
  by (induction us rule: rev_induct) (simp_all add: process_variant_eq update_entry_def)

lemma run_units_logged:
  "0 < tot \<Longrightarrow> js_logged (run_units env s val t sid tot us st) =
     js_logged st @ concat (map (unit_rows env s val t sid) us)"
  by (induction us rule: rev_induct) (simp_all add: process_variant_eq update_entry_def)

lemma run_units_frame:
  "0 < tot \<Longrightarrow>
     jp_errors (js_entry (run_units env s val t sid tot us st)) = jp_errors (js_entry st)
   \<and> jp_status (js_entry (run_units env s val t sid tot us st)) = jp_status (js_entry st)
   \<and> jp_total (js_entry (run_units env s val t sid tot us st)) = jp_total (js_entry st)
   \<and> jp_error (js_entry (run_units env s val t sid tot us st)) = jp_error (js_entry st)"
  by (induction us rule: rev_induct) (simp_all add: process_variant_eq update_entry_def)

lemma run_units_entry:
  "0 < tot \<Longrightarrow> us \<noteq> [] \<Longrightarrow>
     jp_current (js_entry (run_units env s val t sid tot us st))
       = js_current (run_units env s val t sid tot us st)
   \<and> jp_successful (js_entry (run_units env s val t sid tot us st))
       = Some (js_successful_updates (run_units env s val t sid tot us st))
   \<and> jp_percentage (js_entry (run_units env s val t sid tot us st))
       = py_int (real (js_current (run_units env s val t sid tot us st)) / real tot * 100)"
  by (cases us rule: rev_cases) (simp_all add: process_variant_eq update_entry_def)

lemma get_filtered_products_returns: "\<exists>ps. get_filtered_products env ft fv lmt = Inr ps"
  by (simp add: get_filtered_products_def split: sum.splits)

lemma process_discount_update_run:
  assumes "get_filtered_products env ft fv lmt = Inr ps"
  shows "process_discount_update env task_id sid s val t ft fv lmt =
     update_entry (\<lambda>p. p\<lparr> jp_status := ''completed'',
                           jp_completed_at := Some (clock_isoformat env),
                           jp_final_stats := Some
                             \<lparr> fs_total_processed = js_current (loop_result env sid s val t ps),
                               fs_successful_updates =
                                 js_successful_updates (loop_result env sid s val t ps),
                               fs_errors_count = length (jp_errors p) \<rparr> \<rparr>)
       (loop_result env sid s val t ps)"
  by (simp add: process_discount_update_def process_discount_update_try_def assms Let_def
      process_products_run_units length_units_of update_entry_def initial_job_state_def
      loop_result_def)

lemma loop_result_summary:
  "js_current (loop_result env sid s val t ps) = length (units_of ps)
   \<and> js_successful_updates (loop_result env sid s val t ps)
       = length (filter (unit_succeeds env s val t sid) (units_of ps))
   \<and> js_sent (loop_result env sid s val t ps)
       = concat (map (unit_requests env s val t sid) (units_of ps))
   \<and> js_logged (loop_result env sid s val t ps)
       = concat (map (unit_rows env s val t sid) (units_of ps))
   \<and> jp_errors (js_entry (loop_result env sid s val t ps)) = []
   \<and> jp_status (js_entry (loop_result env sid s val t ps)) = ''processing''
   \<and> jp_total (js_entry (loop_result env sid s val t ps)) = length (units_of ps)
   \<and> jp_error (js_entry (loop_result env sid s val t ps)) = None
   \<and> jp_current (js_entry (loop_result env sid s val t ps)) = length (units_of ps)
   \<and> jp_successful (js_entry (loop_result env sid s val t ps))
       = (if units_of ps = [] then None
          else Some (length (filter (unit_succeeds env s val t sid) (units_of ps))))"
proof (cases "units_of ps = []")
  case True
  then show ?thesis
    by (simp add: loop_result_def update_entry_def initial_job_state_def initial_progress_def)
next
  case False
  then have pos: "0 < length (units_of ps)" by simp
  define st1 where "st1 = update_entry (\<lambda>p. p\<lparr> jp_total := length (units_of ps),
                              jp_status := ''processing'' \<rparr>) (initial_job_state sid s)"
  have st1: "js_current st1 = 0" "js_successful_updates st1 = 0" "js_sent st1 = []"
    "js_logged st1 = []" "jp_errors (js_entry st1) = []" "jp_status (js_entry st1) = ''processing''"
    "jp_total (js_entry st1) = length (units_of ps)" "jp_error (js_entry st1) = None"
    by (simp_all add: st1_def update_entry_def initial_job_state_def initial_progress_def)
  have lr: "loop_result env sid s val t ps
              = run_units env s val t sid (length (units_of ps)) (units_of ps) st1"
    by (simp add: loop_result_def st1_def)
  show ?thesis
    unfolding lr
    using run_units_current [OF pos, of env s val t sid "units_of ps" st1]
      run_units_successful [OF pos, of env s val t sid "units_of ps" st1]
      run_units_sent [OF pos, of env s val t sid "units_of ps" st1]
      run_units_logged [OF pos, of env s val t sid "units_of ps" st1]
      run_units_frame [OF pos, of env s val t sid "units_of ps" st1]
      run_units_entry [OF pos False, of env s val t sid st1]
    by (simp add: st1 False)
qed

lemma process_discount_update_summary:
  assumes "get_filtered_products env ft fv lmt = Inr ps"
    and "st = process_discount_update env task_id sid s val t ft fv lmt"
    and "us = units_of ps"
    and "k = length (filter (unit_succeeds env s val t sid) us)"
  shows "jp_status (js_entry st) = ''completed''"
    and "jp_total (js_entry st) = length us"
    and "jp_current (js_entry st) = length us"
    and "jp_successful (js_entry st) = (if us = [] then None else Some k)"
    and "jp_errors (js_entry st) = []"
    and "jp_error (js_entry st) = None"
    and "jp_final_stats (js_entry st)
           = Some \<lparr> fs_total_processed = length us, fs_successful_updates = k,
                    fs_errors_count = 0 \<rparr>"
    and "js_sent st = concat (map (unit_requests env s val t sid) us)"
    and "js_logged st = concat (map (unit_rows env s val t sid) us)"
  using loop_result_summary [of env sid s val t ps]
  by (simp_all add: assms(2-4) process_discount_update_run [OF assms(1)] update_entry_def)

lemma example_catalogue:
  "get_filtered_products (example_env (Inr example_products) put store) ''all'' None None
     = Inr example_products"
  by (simp add: get_filtered_products_def get_filtered_products_try_def example_env_def)

lemma example_units:
  "units_of example_products =
     [(hd example_products, \<lparr> v_id = 11, v_title = Some ''S'', v_price = 100, v_compare_at_price = Some 120 \<rparr>),
      (hd example_products, \<lparr> v_id = 12, v_title = None, v_price = 50, v_compare_at_price = None \<rparr>)]"
  by (simp add: units_of_def example_products_def)

lemmas unit_defs = unit_succeeds_def unit_requests_def unit_rows_def
  update_single_variant_discount_def update_single_variant_try_def price_arguments_def
  build_payload_def guarded_discount_def calculate_discount_percentage_def py_div_def
  Let_def format_2f_nonempty example_env_def fails_for_def always_ok_def history_ok_def
  history_fails_for_def


lemma counters_le_refl: "counters_le p p"
  by (simp add: counters_le_def)

lemma counters_le_trans: "counters_le p q \<Longrightarrow> counters_le q r \<Longrightarrow> counters_le p r"
  by (auto simp: counters_le_def)

lemma progress_trace_update_entry:
  "progress_trace (update_entry f st) = progress_trace st @ [f (js_entry st)]"
  by (simp add: progress_trace_def update_entry_def)

lemma sorted_trace_extend:
  assumes "sorted_wrt counters_le (progress_trace st)"
    and "counters_le (js_entry st) e"
  shows "sorted_wrt counters_le (progress_trace st @ [e])"
proof -
  have "counters_le x e" if "x \<in> set (progress_trace st)" for x
  proof (cases "x = js_entry st")
    case True
    with assms(2) show ?thesis by simp
  next
    case False
    with that have "x \<in> set (js_history st)" by (simp add: progress_trace_def)
    with assms(1) have "counters_le x (js_entry st)"
      by (simp add: progress_trace_def sorted_wrt_append)
    then show ?thesis using assms(2) by (rule counters_le_trans)
  qed
  with assms(1) show ?thesis by (simp add: sorted_wrt_append)
qed

lemma py_int_percentage_mono:
  "py_int (real c / real tot * 100) \<le> py_int (real (c + 1) / real tot * 100)"
proof -
  have "real c / real tot * 100 \<le> real (c + 1) / real tot * 100"
    by (simp add: divide_right_mono)
  then have "\<lfloor>real c / real tot * 100\<rfloor> \<le> \<lfloor>real (c + 1) / real tot * 100\<rfloor>"
    by (rule floor_mono)
  then show ?thesis by (simp add: py_int_def)
qed

lemma job_inv_step:
  assumes "0 < tot" and "job_inv tot st"
  shows "job_inv tot (process_variant env s val t sid tot p v st)"
proof -
  define b :: nat where "b = (if unit_succeeds env s val t sid (p, v) then 1 else 0)"
  define e where "e = (js_entry st)\<lparr> jp_current := js_current st + 1,
                           jp_successful := Some (js_successful_updates st + b),
                           jp_percentage := py_int (real (js_current st + 1) / real tot * 100),
                           jp_current_item := Some (item_label p v) \<rparr>"
  define st' where "st' = process_variant env s val t sid tot p v st"
  have entry: "js_entry st' = e" and hist: "js_history st' = js_history st @ [js_entry st]"
    and cur: "js_current st' = js_current st + 1"
    and suc: "js_successful_updates st' = js_successful_updates st + b"
    using assms(1)
    by (simp_all add: st'_def process_variant_eq update_entry_def e_def b_def)
  have "jp_successful (js_entry st) \<le> Some (js_successful_updates st + b)"
    using assms(2) by (cases "jp_successful (js_entry st)") (simp_all add: job_inv_def)
  then have le: "counters_le (js_entry st) e"
    using assms(2) py_int_percentage_mono [of "js_current st" tot]
    by (simp add: counters_le_def e_def job_inv_def)
  have "progress_trace st' = progress_trace st @ [e]"
    by (simp add: progress_trace_def entry hist)
  moreover have "sorted_wrt counters_le (progress_trace st @ [e])"
    using assms(2) le by (intro sorted_trace_extend) (simp_all add: job_inv_def)
  ultimately have "sorted_wrt counters_le (progress_trace st')" by simp
  then show ?thesis
    unfolding st'_def [symmetric]
    by (simp add: job_inv_def entry cur suc e_def)
qed

lemma job_inv_run_units:
  "0 < tot \<Longrightarrow> job_inv tot st \<Longrightarrow> job_inv tot (run_units env s val t sid tot us st)"
  by (induction us rule: rev_induct) (simp_all add: job_inv_step)

lemma loop_result_sorted:
  "sorted_wrt counters_le (progress_trace (loop_result env sid s val t ps))"
proof -
  define st1 where "st1 = update_entry (\<lambda>p. p\<lparr> jp_total := length (units_of ps),
                              jp_status := ''processing'' \<rparr>) (initial_job_state sid s)"
  have inv: "job_inv (length (units_of ps)) st1"
    by (simp add: job_inv_def st1_def update_entry_def initial_job_state_def
        initial_progress_def progress_trace_def counters_le_def py_int_def)
  show ?thesis
  proof (cases "units_of ps = []")
    case True
    with inv show ?thesis by (simp add: loop_result_def st1_def job_inv_def)
  next
    case False
    then have "0 < length (units_of ps)" by simp
    from job_inv_run_units [OF this inv] show ?thesis
      by (simp add: loop_result_def st1_def job_inv_def)
  qed
qed

lemma process_discount_update_sorted:
  "sorted_wrt counters_le
     (progress_trace (process_discount_update env task_id sid s val t ft fv lmt))"
proof -
  obtain ps where ps: "get_filtered_products env ft fv lmt = Inr ps"
    using get_filtered_products_returns by blast
  show ?thesis
    unfolding process_discount_update_run [OF ps] progress_trace_update_entry
    by (intro sorted_trace_extend loop_result_sorted) (simp add: counters_le_def)
qed

lemma calculate_new_prices_returns:
  assumes "s = SET_DISCOUNT_PERCENTAGE \<longrightarrow> (\<exists>D. t = Some D \<and> D \<noteq> 100)"
  shows "\<exists>np nc. calculate_new_prices p c s val t = Inr (np, nc)"
  using assms by (cases s) (auto simp: Let_def py_div_def)

lemma unit_succeeds_all_ok:
  assumes remote: "\<forall>request. shopify_put_variant env request = Inr ()"
    and history: "\<forall>change. db_log_price_change env change = Inr ()"
    and calc: "s = SET_DISCOUNT_PERCENTAGE \<longrightarrow> (\<exists>D. t = Some D \<and> D \<noteq> 100)"
  shows "unit_succeeds env s val t sid u"
proof -
  obtain np nc where np:
    "calculate_new_prices (v_price (snd u)) (v_compare_at_price (snd u)) s val t = Inr (np, nc)"
    using calculate_new_prices_returns [OF calc] by blast
  obtain od where od: "guarded_discount (v_price (snd u)) (v_compare_at_price (snd u)) = Inr od"
    using guarded_discount_returns by blast
  obtain nd where nd: "guarded_discount np nc = Inr nd"
    using guarded_discount_returns by blast
  show ?thesis
    by (simp add: unit_succeeds_def update_single_variant_discount_def
        update_single_variant_try_def np od nd remote history Let_def)
qed

lemma unit_missing_target:
  "update_single_variant_discount env p v SET_DISCOUNT_PERCENTAGE val None sid
     = (Inr False, [], [])"
  by (simp add: update_single_variant_discount_def update_single_variant_try_def)

lemma unknown_strategy_rejected:
  assumes "DiscountStrategy_of name = Inl e"
  shows "update_prices env name val target ft fv lmt =
           \<lparr> so_result = Inl (HTTPException 400 msg_bad_strategy), so_sessions = [],
             so_tasks = [] \<rparr>"
  by (simp add: update_prices_def assms)

subsection \<open>C2: a unit whose remote update fails\<close>

text \<open>
  C2 at a batch of two units where the remote service rejects the update of the first
  unit, 11, and accepts that of the second, 12. The job issues both requests, ends with
  status \<open>completed\<close>, \<open>current = 2\<close> and one success, as C2 says; but its
  \<open>errors\<close> sequence is empty, where C2 says it holds the failed unit 11 with its
  error message. The failure is caught inside \<open>update_single_variant_discount\<close>, which
  returns \<open>False\<close>, so the handler of the loop body that appends to \<open>errors\<close> is
  never entered.
\<close>

theorem partial_failure_leaves_errors_empty:
  "jp_status (js_entry (example_run (Inr example_products) (fails_for 11) history_ok
                          INCREASE_COMPARE_ONLY 15 None)) = ''completed''
 \<and> jp_current (js_entry (example_run (Inr example_products) (fails_for 11) history_ok
                          INCREASE_COMPARE_ONLY 15 None)) = 2
 \<and> jp_total (js_entry (example_run (Inr example_products) (fails_for 11) history_ok
                          INCREASE_COMPARE_ONLY 15 None)) = 2
 \<and> jp_successful (js_entry (example_run (Inr example_products) (fails_for 11) history_ok
                          INCREASE_COMPARE_ONLY 15 None)) = Some 1
 \<and> map pl_id (js_sent (example_run (Inr example_products) (fails_for 11) history_ok
                          INCREASE_COMPARE_ONLY 15 None)) = [11, 12]
 \<and> map pc_variant_id (js_logged (example_run (Inr example_products) (fails_for 11) history_ok
                          INCREASE_COMPARE_ONLY 15 None)) = [12]
 \<and> jp_errors (js_entry (example_run (Inr example_products) (fails_for 11) history_ok
                          INCREASE_COMPARE_ONLY 15 None)) = []
 \<and> jp_final_stats (js_entry (example_run (Inr example_products) (fails_for 11) history_ok
                          INCREASE_COMPARE_ONLY 15 None))
       = Some \<lparr> fs_total_processed = 2, fs_successful_updates = 1, fs_errors_count = 0 \<rparr>"
  using process_discount_update_summary [OF example_catalogue refl refl refl,
      of "fails_for 11" history_ok "''discount_update_1700000000''" "''session-1''"
         INCREASE_COMPARE_ONLY 15 None]
  by (simp add: example_run_def example_units unit_defs)

subsection \<open>C4: a missing target percentage\<close>

text \<open>
  C4 at the job-start operation called with \<open>set_discount_percentage\<close> and no target
  percentage, over the catalogue of the example. C4 says that the call fails with an
  invalid-argument error before any batch work: no session, no job, no unit attempted.
  \<open>update_prices\<close> checks the strategy name and nothing else: it creates the rollback
  session, queues the job and answers \<open>started\<close>. The queued job then takes up both
  units; the price calculation of each raises the \<open>ValueError\<close> that says the target
  percentage is mandatory, and the handler of \<open>update_single_variant_discount\<close> turns it
  into \<open>False\<close>, so the caller of the job-start operation never sees it.
\<close>

theorem missing_target_starts_job:
  "update_prices (example_env (Inr example_products) always_ok history_ok)
       ''set_discount_percentage'' 10 None ''all'' None None =
     \<lparr> so_result = Inr \<lparr> sr_task_id = ''discount_update_1700000000'',
                          sr_session_id = ''session-1'', sr_status = ''started'',
                          sr_message = msg_started @ desc_set_discount_percentage \<rparr>,
       so_sessions = [(''session-1'', ''DISCOUNT_UPDATE'',
                       desc_set_discount_percentage @ session_value_label @ ''10.0%'')],
       so_tasks = [\<lparr> t_task_id = ''discount_update_1700000000'', t_session_id = ''session-1'',
                    t_strategy = SET_DISCOUNT_PERCENTAGE, t_value = 10, t_target_discount = None,
                    t_filter_type = ''all'', t_filter_value = None,
                    t_limit_products = None \<rparr>] \<rparr>
 \<and> jp_current (js_entry (run_task (example_env (Inr example_products) always_ok history_ok)
       \<lparr> t_task_id = ''discount_update_1700000000'', t_session_id = ''session-1'',
         t_strategy = SET_DISCOUNT_PERCENTAGE, t_value = 10, t_target_discount = None,
         t_filter_type = ''all'', t_filter_value = None, t_limit_products = None \<rparr>)) = 2
 \<and> fst (update_single_variant_try (example_env (Inr example_products) always_ok history_ok)
          (hd example_products) (hd (p_variants (hd example_products)))
          SET_DISCOUNT_PERCENTAGE 10 None ''session-1'')
     = Inl (ValueError msg_target_required)"
proof -
  have start: "update_prices (example_env (Inr example_products) always_ok history_ok)
       ''set_discount_percentage'' 10 None ''all'' None None =
     \<lparr> so_result = Inr \<lparr> sr_task_id = ''discount_update_1700000000'',
                          sr_session_id = ''session-1'', sr_status = ''started'',
                          sr_message = msg_started @ desc_set_discount_percentage \<rparr>,
       so_sessions = [(''session-1'', ''DISCOUNT_UPDATE'',
                       desc_set_discount_percentage @ session_value_label @ ''10.0%'')],
       so_tasks = [\<lparr> t_task_id = ''discount_update_1700000000'', t_session_id = ''session-1'',
                    t_strategy = SET_DISCOUNT_PERCENTAGE, t_value = 10, t_target_discount = None,
                    t_filter_type = ''all'', t_filter_value = None,
                    t_limit_products = None \<rparr>] \<rparr>"
    by (simp add: update_prices_def DiscountStrategy_of_def example_env_def digit_char_def
        Let_def dec_digits.simps)
  have run: "jp_current (js_entry (run_task
       (example_env (Inr example_products) always_ok history_ok)
       \<lparr> t_task_id = ''discount_update_1700000000'', t_session_id = ''session-1'',
         t_strategy = SET_DISCOUNT_PERCENTAGE, t_value = 10, t_target_discount = None,
         t_filter_type = ''all'', t_filter_value = None, t_limit_products = None \<rparr>)) = 2"
    using process_discount_update_summary [OF example_catalogue refl refl refl,
        of always_ok history_ok "''discount_update_1700000000''" "''session-1''"
           SET_DISCOUNT_PERCENTAGE 10 None]
    by (simp add: run_task_def example_units)
  have unit: "fst (update_single_variant_try
          (example_env (Inr example_products) always_ok history_ok)
          (hd example_products) (hd (p_variants (hd example_products)))
          SET_DISCOUNT_PERCENTAGE 10 None ''session-1'')
     = Inl (ValueError msg_target_required)"
    by (simp add: update_single_variant_try_def)
  from start run unit show ?thesis by simp
qed

subsection \<open>C5: a failure of the enumeration\<close>

text \<open>
  C5, as stated, fails: \<open>get_filtered_products\<close> has a handler of its own that returns
  the empty list for every exception, so nothing reaches the handler of the job. With a
  catalogue whose fetch fails with an authorisation error, the job ends with status
  \<open>completed\<close>, no job-level error and a total of 0.
\<close>

theorem enumeration_failure_completes_counterexample:
  "get_filtered_products_try
     (example_env (Inl (CollaboratorError ''401 Unauthorized'')) always_ok history_ok)
     ''all'' None None = Inl (CollaboratorError ''401 Unauthorized'')
 \<and> jp_status (js_entry (example_run (Inl (CollaboratorError ''401 Unauthorized''))
                          always_ok history_ok INCREASE_COMPARE_ONLY 15 None)) = ''completed''
 \<and> jp_error (js_entry (example_run (Inl (CollaboratorError ''401 Unauthorized''))
                          always_ok history_ok INCREASE_COMPARE_ONLY 15 None)) = None
 \<and> jp_total (js_entry (example_run (Inl (CollaboratorError ''401 Unauthorized''))
                          always_ok history_ok INCREASE_COMPARE_ONLY 15 None)) = 0"
proof -
  have raised: "get_filtered_products_try
     (example_env (Inl (CollaboratorError ''401 Unauthorized'')) always_ok history_ok)
     ''all'' None None = Inl (CollaboratorError ''401 Unauthorized'')"
    by (simp add: get_filtered_products_try_def example_env_def)
  then have "get_filtered_products
          (example_env (Inl (CollaboratorError ''401 Unauthorized'')) always_ok history_ok)
          ''all'' None None = Inr []"
    by (simp add: get_filtered_products_def)
  from process_discount_update_summary [OF this refl refl refl] raised show ?thesis
    by (simp add: example_run_def units_of_def)
qed

text \<open>
  C5, amended: if the fetch of the filtered item list raises during a batch run,
  \<open>get_filtered_products\<close> catches the failure and returns the empty list; the failure
  does not propagate. The job goes from \<open>initializing\<close> to \<open>processing\<close> to
  \<open>completed\<close> with a total of 0, issues no update request and records no error at the
  job level: it completes as it does for zero items. The hypothesis is the one fetch that
  the job makes for its filter, whichever it is.
\<close>

theorem enumeration_failure_completes_empty:
  assumes raised: "get_filtered_products_try env ft fv lmt = Inl e"
    and st: "st = process_discount_update env task_id sid strategy val target ft fv lmt"
  shows "get_filtered_products env ft fv lmt = Inr []
       \<and> map jp_status (progress_trace st) = [''initializing'', ''processing'', ''completed'']
       \<and> jp_error (js_entry st) = None
       \<and> jp_total (js_entry st) = 0 \<and> jp_current (js_entry st) = 0
       \<and> jp_errors (js_entry st) = []
       \<and> js_sent st = []"
proof -
  have empty: "get_filtered_products env ft fv lmt = Inr []"
    by (simp add: get_filtered_products_def raised)
  have tr: "map jp_status (progress_trace st) = [''initializing'', ''processing'', ''completed'']"
    by (simp add: st process_discount_update_run [OF empty] loop_result_def units_of_def
        progress_trace_def update_entry_def initial_job_state_def initial_progress_def)
  show ?thesis
    using process_discount_update_summary [OF empty st refl refl] empty tr
    by (simp add: units_of_def)
qed

theorem enumeration_failure_completes_empty_witness:
  "get_filtered_products_try
     (example_env (Inl (CollaboratorError ''401 Unauthorized'')) always_ok history_ok)
     ''all'' None None = Inl (CollaboratorError ''401 Unauthorized'')
 \<and> map jp_status (progress_trace
       (example_run (Inl (CollaboratorError ''401 Unauthorized'')) always_ok history_ok
          INCREASE_COMPARE_ONLY 15 None))
     = [''initializing'', ''processing'', ''completed'']"
proof -
  have raised: "get_filtered_products_try
     (example_env (Inl (CollaboratorError ''401 Unauthorized'')) always_ok history_ok)
     ''all'' None None = Inl (CollaboratorError ''401 Unauthorized'')"
    by (simp add: get_filtered_products_try_def example_env_def)
  from enumeration_failure_completes_empty [OF raised refl] raised show ?thesis
    by (simp add: example_run_def)
qed

subsection \<open>C7: a batch in which nothing fails\<close>

text \<open>
  C7, as stated, fails: that every remote update call succeeds does not make every unit
  succeed. In the example the remote service accepts both updates, and the history store
  fails for the row of unit 11: \<open>update_single_variant_discount\<close> returns
  \<open>False\<close> for that unit, and the job over two units ends with 1 success. (The same
  happens to every unit when the price calculation raises, as it does under
  \<open>SET_DISCOUNT_PERCENTAGE\<close> without a target percentage: lemma
  \<open>unit_missing_target\<close>.)
\<close>

theorem all_remote_calls_succeed_counterexample:
  "map pl_id (js_sent (example_run (Inr example_products) always_ok (history_fails_for 11)
                         DECREASE_PRICE_ONLY 10 None)) = [11, 12]
 \<and> jp_total (js_entry (example_run (Inr example_products) always_ok (history_fails_for 11)
                         DECREASE_PRICE_ONLY 10 None)) = 2
 \<and> jp_current (js_entry (example_run (Inr example_products) always_ok (history_fails_for 11)
                         DECREASE_PRICE_ONLY 10 None)) = 2
 \<and> jp_successful (js_entry (example_run (Inr example_products) always_ok (history_fails_for 11)
                         DECREASE_PRICE_ONLY 10 None)) = Some 1"
  using process_discount_update_summary [OF example_catalogue refl refl refl,
      of always_ok "history_fails_for 11" "''discount_update_1700000000''" "''session-1''"
         DECREASE_PRICE_ONLY 10 None]
  by (simp add: example_run_def example_units unit_defs)

text \<open>
  C7, amended: for a batch of \<open>N\<close> priced units in which every remote update call and
  every history write succeeds, and whose price calculation does not raise (under
  \<open>SET_DISCOUNT_PERCENTAGE\<close> the target percentage is present and is not 100), the final
  progress has \<open>current = N\<close>, an empty \<open>errors\<close> sequence, status \<open>completed\<close>
  and final statistics of \<open>N\<close> processed and \<open>N\<close> successful; its \<open>successful\<close>
  count is \<open>N\<close> when \<open>N > 0\<close>, and the key is absent when the batch is empty.
\<close>

theorem batch_completeness:
  assumes remote: "\<forall>request. shopify_put_variant env request = Inr ()"
    and history: "\<forall>change. db_log_price_change env change = Inr ()"
    and calc: "strategy = SET_DISCOUNT_PERCENTAGE \<longrightarrow> (\<exists>D. target = Some D \<and> D \<noteq> 100)"
    and cat: "get_filtered_products env ft fv lmt = Inr products"
    and N: "N = sum_list (map (\<lambda>p. length (p_variants p)) products)"
    and st: "st = process_discount_update env task_id sid strategy val target ft fv lmt"
  shows "jp_current (js_entry st) = N
       \<and> jp_successful (js_entry st) = (if N = 0 then None else Some N)
       \<and> jp_errors (js_entry st) = []
       \<and> jp_status (js_entry st) = ''completed''
       \<and> jp_final_stats (js_entry st)
           = Some \<lparr> fs_total_processed = N, fs_successful_updates = N, fs_errors_count = 0 \<rparr>"
proof -
  have all: "filter (unit_succeeds env strategy val target sid) (units_of products)
               = units_of products"
    using unit_succeeds_all_ok [OF remote history calc] by simp
  have len: "length (units_of products) = N" by (simp add: N length_units_of)
  then have empty: "units_of products = [] \<longleftrightarrow> N = 0" by auto
  show ?thesis
    using process_discount_update_summary [OF cat st refl refl]
    by (simp add: all len empty)
qed

theorem batch_completeness_witness:
  "jp_current (js_entry (example_run (Inr example_products) always_ok history_ok
                           DECREASE_PRICE_ONLY 10 None)) = 2
 \<and> jp_successful (js_entry (example_run (Inr example_products) always_ok history_ok
                           DECREASE_PRICE_ONLY 10 None)) = Some 2
 \<and> jp_errors (js_entry (example_run (Inr example_products) always_ok history_ok
                           DECREASE_PRICE_ONLY 10 None)) = []
 \<and> jp_status (js_entry (example_run (Inr example_products) always_ok history_ok
                           DECREASE_PRICE_ONLY 10 None)) = ''completed''"
proof -
  let ?env = "example_env (Inr example_products) always_ok history_ok"
  have 1: "\<forall>request. shopify_put_variant ?env request = Inr ()"
    by (simp add: example_env_def always_ok_def)
  have 2: "\<forall>change. db_log_price_change ?env change = Inr ()"
    by (simp add: example_env_def history_ok_def)
  have 3: "DECREASE_PRICE_ONLY = SET_DISCOUNT_PERCENTAGE
             \<longrightarrow> (\<exists>D. (None::real option) = Some D \<and> D \<noteq> 100)"
    by simp
  have 4: "(2::nat) = sum_list (map (\<lambda>p. length (p_variants p)) example_products)"
    by (simp add: example_products_def)
  from batch_completeness [OF 1 2 3 example_catalogue 4 refl] show ?thesis
    by (simp add: example_run_def)
qed

subsection \<open>C9: the counters never go down\<close>

text \<open>
  The writes that a job logs are those that make its own trace; what a poller of a key sees
  over a run of the process is made of the entries that the writes to that key produce, each
  possibly seen several times; and the task identifier depends on the clock alone, so that
  two jobs started in the same second write under one key.
\<close>

lemma entry_states_append:
  "entry_states (ws @ vs) old = entry_states ws old @ entry_states vs (fold apply_entry_write ws old)"
  by (induction ws arbitrary: old) simp_all

lemma writes_agree_update_entry:
  "writes_agree st \<Longrightarrow> writes_agree (update_entry f st)"
  by (simp add: writes_agree_def update_entry_def progress_trace_def entry_states_append)

lemma writes_agree_process_variant:
  "writes_agree st \<Longrightarrow> writes_agree (process_variant env s val t sid tot p v st)"
  by (auto simp: process_variant_def record_unit_error_def Let_def writes_agree_def
      update_entry_def progress_trace_def entry_states_append split: prod.splits sum.splits)

lemma writes_agree_run_units:
  "writes_agree st \<Longrightarrow> writes_agree (run_units env s val t sid tot us st)"
  by (induction us rule: rev_induct) (simp_all add: writes_agree_process_variant)

lemma writes_agree_process_discount_update:
  "writes_agree (process_discount_update env task_id sid s val t ft fv lmt)"
proof -
  obtain ps where ps: "get_filtered_products env ft fv lmt = Inr ps"
    using get_filtered_products_returns by blast
  have "writes_agree (initial_job_state sid s)"
    by (simp add: writes_agree_def initial_job_state_def progress_trace_def)
  then show ?thesis
    unfolding process_discount_update_run [OF ps] loop_result_def
    by (intro writes_agree_update_entry writes_agree_run_units)
qed

lemma key_trace_Cons:
  "key_trace k (w # ws) reg
     = List.map_filter (\<lambda>x. x) [registry_write w reg k] @ key_trace k ws (registry_write w reg)"
  by (simp add: key_trace_def split: option.splits)

lemma registry_write_key:
  "registry_write w reg k = (if fst w = k then apply_entry_write (snd w) (reg k) else reg k)"
  by (simp add: registry_write_def)

lemma set_key_trace:
  "set (key_trace k ws reg)
     \<subseteq> set (List.map_filter (\<lambda>x. x) (reg k # entry_states (writes_under k ws) (reg k)))"
proof (induction ws arbitrary: reg)
  case Nil
  then show ?case by (simp add: key_trace_def)
next
  case (Cons w ws)
  define reg' where "reg' = registry_write w reg"
  have kt: "key_trace k (w # ws) reg = List.map_filter (\<lambda>x. x) [reg' k] @ key_trace k ws reg'"
    by (simp add: key_trace_Cons reg'_def)
  have IH: "set (key_trace k ws reg')
     \<subseteq> set (List.map_filter (\<lambda>x. x) (reg' k # entry_states (writes_under k ws) (reg' k)))"
    by (rule Cons.IH)
  show ?case
  proof (cases "fst w = k")
    case True
    then have r: "reg' k = apply_entry_write (snd w) (reg k)"
      by (simp add: reg'_def registry_write_key)
    have wu: "writes_under k (w # ws) = snd w # writes_under k ws"
      using True by (simp add: writes_under_def)
    from IH show ?thesis
      unfolding kt wu by (auto simp: r split: option.splits)
  next
    case False
    then have r: "reg' k = reg k" by (simp add: reg'_def registry_write_key)
    have wu: "writes_under k (w # ws) = writes_under k ws"
      using False by (simp add: writes_under_def)
    from IH show ?thesis
      unfolding kt wu by (auto simp: r split: option.splits)
  qed
qed

lemma key_trace_sorted:
  assumes refl: "\<And>d. P d d"
    and sorted: "sorted_wrt P (List.map_filter (\<lambda>x. x)
                    (reg k # entry_states (writes_under k ws) (reg k)))"
  shows "sorted_wrt P (key_trace k ws reg)"
  using sorted
proof (induction ws arbitrary: reg)
  case Nil
  then show ?case by (simp add: key_trace_def)
next
  case (Cons w ws)
  define reg' where "reg' = registry_write w reg"
  have kt: "key_trace k (w # ws) reg = List.map_filter (\<lambda>x. x) [reg' k] @ key_trace k ws reg'"
    by (simp add: key_trace_Cons reg'_def)
  have tail: "sorted_wrt P (List.map_filter (\<lambda>x. x)
                    (reg' k # entry_states (writes_under k ws) (reg' k)))"
  proof (cases "fst w = k")
    case True
    then have r: "reg' k = apply_entry_write (snd w) (reg k)"
      by (simp add: reg'_def registry_write_key)
    have wu: "writes_under k (w # ws) = snd w # writes_under k ws"
      using True by (simp add: writes_under_def)
    from Cons.prems show ?thesis
      unfolding wu by (auto simp: r split: option.splits)
  next
    case False
    then have r: "reg' k = reg k" by (simp add: reg'_def registry_write_key)
    have wu: "writes_under k (w # ws) = writes_under k ws"
      using False by (simp add: writes_under_def)
    from Cons.prems show ?thesis
      unfolding wu by (simp add: r)
  qed
  then have kts: "sorted_wrt P (key_trace k ws reg')" by (rule Cons.IH)
  have "P d x" if "reg' k = Some d" and "x \<in> set (key_trace k ws reg')" for d x
  proof -
    from that(2) set_key_trace [of k ws reg']
    have "x \<in> set (List.map_filter (\<lambda>x. x)
                    (reg' k # entry_states (writes_under k ws) (reg' k)))"
      by blast
    with tail that(1) show ?thesis
      by (auto simp: refl)
  qed
  with kts show ?case
    unfolding kt by (auto simp: sorted_wrt_append split: option.splits)
qed

lemma map_filter_Some: "List.map_filter (\<lambda>x. x) (map Some xs) = xs"
  by (induction xs) simp_all
lemma sandwich_in_shuffles: "xs1 @ ys @ xs2 \<in> shuffles (xs1 @ xs2) ys"
proof (induction xs1)
  case Nil
  show ?case
    by (induction ys) (simp_all add: Cons_in_shuffles_rightI)
next
  case (Cons x xs1)
  then show ?case by (simp add: Cons_in_shuffles_leftI)
qed

lemmas example_write_defs = example_writes_def job_writes_def process_discount_update_run [OF example_catalogue]
      loop_result_def example_units run_units_def process_variant_eq update_entry_def
      initial_job_state_def initial_progress_def py_int_def key_trace_def registry_write_def

lemma task_id_from_clock:
  assumes "so_tasks (update_prices env name val target ft fv lmt) = [job]"
  shows "t_task_id job = ''discount_update_'' @ dec_digits (clock_time env)"
  using assms
  by (auto simp: update_prices_def Let_def split: sum.splits)

text \<open>
  C9, as stated, fails: it speaks of every job, and the registry entry of a job is shared
  with every job started in the same second. In the example two jobs over the catalogue are
  started in one second. The first has done one unit of two (\<open>current = 1\<close>) when the
  second starts and assigns a fresh entry to the same key: the \<open>current\<close> that a poller
  of the first job sees falls from 1 to 0.
\<close>

theorem same_second_jobs_counterexample:
  "take 3 (example_writes INCREASE_COMPARE_ONLY 15) @ example_writes DECREASE_PRICE_ONLY 10
     @ drop 3 (example_writes INCREASE_COMPARE_ONLY 15)
     \<in> shuffles (example_writes INCREASE_COMPARE_ONLY 15) (example_writes DECREASE_PRICE_ONLY 10)
 \<and> map jp_current (key_trace ''discount_update_1700000000''
       (take 3 (example_writes INCREASE_COMPARE_ONLY 15) @ example_writes DECREASE_PRICE_ONLY 10
          @ drop 3 (example_writes INCREASE_COMPARE_ONLY 15)) (\<lambda>k. None))
     = [0, 0, 1, 0, 0, 1, 2, 2, 2, 2]
 \<and> \<not> sorted (map jp_current (key_trace ''discount_update_1700000000''
       (take 3 (example_writes INCREASE_COMPARE_ONLY 15) @ example_writes DECREASE_PRICE_ONLY 10
          @ drop 3 (example_writes INCREASE_COMPARE_ONLY 15)) (\<lambda>k. None)))"
proof -
  have "take 3 (example_writes INCREASE_COMPARE_ONLY 15) @ example_writes DECREASE_PRICE_ONLY 10
     @ drop 3 (example_writes INCREASE_COMPARE_ONLY 15)
     \<in> shuffles (take 3 (example_writes INCREASE_COMPARE_ONLY 15)
                   @ drop 3 (example_writes INCREASE_COMPARE_ONLY 15))
                (example_writes DECREASE_PRICE_ONLY 10)"
    by (rule sandwich_in_shuffles)
  moreover have kt: "map jp_current (key_trace ''discount_update_1700000000''
       (take 3 (example_writes INCREASE_COMPARE_ONLY 15) @ example_writes DECREASE_PRICE_ONLY 10
          @ drop 3 (example_writes INCREASE_COMPARE_ONLY 15)) (\<lambda>k. None))
     = [0, 0, 1, 0, 0, 1, 2, 2, 2, 2]"
    by (simp add: example_write_defs)
  ultimately show ?thesis by (simp del: append_take_drop_id add: kt) (simp)
qed

text \<open>
  C9, amended: for every job under whose task identifier no other job writes (no other job
  is started in the same second), in the sequence of all values that its registry entry
  takes from the first write to the last, \<open>current\<close>, \<open>percentage\<close> and
  \<open>successful\<close> are non-decreasing, whatever other jobs write under other keys in
  between. The entry has no \<open>successful\<close> key until the first unit is done; an absent
  key counts as below every number, so the third part also says that the key, once set,
  stays.
\<close>

theorem progress_counters_monotone_own_key:
  assumes own: "writes_under task_id ws
                  = js_writes (process_discount_update env task_id sid s val t ft fv lmt)"
    and fresh: "reg task_id = None"
  shows "sorted (map jp_current (key_trace task_id ws reg))
       \<and> sorted (map jp_percentage (key_trace task_id ws reg))
       \<and> sorted (map jp_successful (key_trace task_id ws reg))"
proof -
  let ?st = "process_discount_update env task_id sid s val t ft fv lmt"
  have "entry_states (js_writes ?st) None = map Some (progress_trace ?st)"
    using writes_agree_process_discount_update [of env task_id sid s val t ft fv lmt]
    by (simp add: writes_agree_def)
  then have "List.map_filter (\<lambda>x. x)
               (reg task_id # entry_states (writes_under task_id ws) (reg task_id))
             = progress_trace ?st"
    by (simp add: own fresh map_filter_Some)
  then have "sorted_wrt counters_le (List.map_filter (\<lambda>x. x)
               (reg task_id # entry_states (writes_under task_id ws) (reg task_id)))"
    by (simp add: process_discount_update_sorted)
  then have tr: "sorted_wrt counters_le (key_trace task_id ws reg)"
    by (rule key_trace_sorted [OF counters_le_refl])
  have "sorted_wrt (\<lambda>p q. jp_current p \<le> jp_current q) (key_trace task_id ws reg)"
    by (rule sorted_wrt_mono_rel [OF _ tr]) (simp add: counters_le_def)
  moreover have
    "sorted_wrt (\<lambda>p q. jp_percentage p \<le> jp_percentage q) (key_trace task_id ws reg)"
    by (rule sorted_wrt_mono_rel [OF _ tr]) (simp add: counters_le_def)
  moreover have
    "sorted_wrt (\<lambda>p q. jp_successful p \<le> jp_successful q) (key_trace task_id ws reg)"
    by (rule sorted_wrt_mono_rel [OF _ tr]) (simp add: counters_le_def)
  ultimately show ?thesis by (simp add: sorted_map)
qed

theorem progress_counters_monotone_own_key_witness:
  "map jp_current (key_trace ''discount_update_1700000000''
     ((''discount_update_1700000001'', Assign (initial_progress ''session-2'' DECREASE_PRICE_ONLY))
        # example_writes INCREASE_COMPARE_ONLY 15) (\<lambda>k. None))
     = [0, 0, 1, 2, 2]
 \<and> sorted (map jp_current (key_trace ''discount_update_1700000000''
     ((''discount_update_1700000001'', Assign (initial_progress ''session-2'' DECREASE_PRICE_ONLY))
        # example_writes INCREASE_COMPARE_ONLY 15) (\<lambda>k. None)))"
proof -
  let ?ws = "(''discount_update_1700000001'',
              Assign (initial_progress ''session-2'' DECREASE_PRICE_ONLY))
             # example_writes INCREASE_COMPARE_ONLY 15"
  have own: "writes_under ''discount_update_1700000000'' ?ws
      = js_writes (process_discount_update
          (example_env (Inr example_products) always_ok history_ok)
          ''discount_update_1700000000'' ''session-1'' INCREASE_COMPARE_ONLY 15 None
          ''all'' None None)"
    by (simp add: writes_under_def example_writes_def job_writes_def filter_map comp_def)
  have kt: "map jp_current (key_trace ''discount_update_1700000000'' ?ws (\<lambda>k. None))
     = [0, 0, 1, 2, 2]"
    by (simp add: example_write_defs)
  from progress_counters_monotone_own_key [OF own, of "\<lambda>k. None"] kt show ?thesis by simp
qed

end
